theory Spec2Isabelle
  imports Complex_Main "HOL-Library.Char_ord" "HOL-Library.List_Lexorder"
begin

section \<open>Python values and errors\<close>

text \<open>
  The repository is two Python files: the command-line driver
  \<^verbatim>\<open>bin/optimal_transport.py\<close> and the plotting helpers
  \<^verbatim>\<open>wot/graphics/plot.py\<close>.  Exceptions are values of \<open>py_error\<close>; a function
  that can raise returns \<open>py_error + 'a\<close>.  The numbers of the arrays the modelled
  functions compare, subtract and divide are reals; where numpy yields \<open>nan\<close> or \<open>inf\<close>
  instead of a number (a zero divisor, the logarithm of a non-positive number) the model
  yields \<open>None\<close>.  The rounding of float64 is not modelled.
\<close>

datatype py_error =
    NameError string
  | ValueError string
  | KeyError string
  | TypeError string
  | AttributeError string
  | FileNotFoundError string

subsection \<open>numpy arithmetic on one-dimensional arrays\<close>

text \<open>
  A binary operator on two arrays of shapes \<open>(n,)\<close> and \<open>(m,)\<close> works elementwise
  when \<open>n = m\<close>, stretches the array of length one otherwise, and raises
  \<^verbatim>\<open>ValueError\<close> when neither applies.
\<close>

definition np_broadcast :: "('a \<Rightarrow> 'b \<Rightarrow> 'c) \<Rightarrow> 'a list \<Rightarrow> 'b list \<Rightarrow> py_error + 'c list" where
  "np_broadcast f xs ys =
     (if length xs = length ys then Inr (map2 f xs ys)
      else if length xs = 1 then Inr (map (f (hd xs)) ys)
      else if length ys = 1 then Inr (map (\<lambda>x. f x (hd ys)) xs)
      else Inl (ValueError ''operands could not be broadcast together''))"

definition np_true_divide :: "real \<Rightarrow> real \<Rightarrow> real option" where
  \<comment> \<open>\<^verbatim>\<open>a / b\<close> on floats: never raises; a zero divisor gives \<open>nan\<close> or \<open>inf\<close>.\<close>
  "np_true_divide a b = (if b = 0 then None else Some (a / b))"

definition np_log :: "real \<Rightarrow> real option" where
  \<comment> \<open>\<^verbatim>\<open>np.log\<close>: \<open>-inf\<close> at zero and \<open>nan\<close> below it.\<close>
  "np_log a = (if 0 < a then Some (ln a) else None)"

definition np_sum :: "real option list \<Rightarrow> real option" where
  \<comment> \<open>\<^verbatim>\<open>.sum()\<close> of an array that may hold \<open>nan\<close> or \<open>inf\<close>: then no number.\<close>
  "np_sum vs = (if None \<in> set vs then None else Some (sum_list (map the vs)))"

text \<open>What a plotting function asks of matplotlib, in the order of the calls.\<close>

datatype plot_cmd =
    Figure
  | TitleText string
  | TitleScores "real option" "real option"
  | TitleDay string string real
  | XLabel string
  | YLabel string
  | PlotLine "real list" "real option list" string
  | Scatter "real list" "real option list"
  | Polygon "(real \<times> real) list"
  | TextAt real real string
  | Axis string
  | Legend
  | Savefig string

section \<open>wot/graphics/plot.py\<close>

subsection \<open>plot\_ot\_validation\_ratio\<close>

text \<open>
  The validation dataframe, as far as the function reads it: one row per series name
  and interval, with the interval's midpoint and the mean distance.
  \<^verbatim>\<open>sort_values\<close> is modelled by a stable sort on the key; pandas' default may
  order rows of equal midpoint differently, which changes no midpoint sequence.
\<close>

record stat_row =
  series_name :: string
  interval_mid :: real
  mean_dist :: real

definition series :: "string \<Rightarrow> stat_row list \<Rightarrow> stat_row list" where
  \<comment> \<open>\<^verbatim>\<open>df[df['name'] == n]\<close>\<close>
  "series n df = filter (\<lambda>r. series_name r = n) df"

definition plt_plot :: "real list \<Rightarrow> real option list \<Rightarrow> string \<Rightarrow> py_error + plot_cmd" where
  "plt_plot xs ys label =
     (if length xs = length ys then Inr (PlotLine xs ys label)
      else Inl (ValueError ''x and y must have same first dimension''))"

definition plot_ot_validation_ratio :: "stat_row list \<Rightarrow> string \<Rightarrow> py_error + plot_cmd list" where
  "plot_ot_validation_ratio df0 filename =
     (let df = sort_key interval_mid df0;
          interpolated_df = series ''I'' df;
          null_growth = series ''Rg'' df;
          null_no_growth = series ''R'' df
      in case np_broadcast (-) (map interval_mid interpolated_df) (map interval_mid null_growth) of
           Inl e \<Rightarrow> Inl e
         | Inr d1 \<Rightarrow>
             if sum_list d1 \<noteq> 0 then Inl (ValueError ''Timepoints are not aligned'')
             else (case np_broadcast (-) (map interval_mid interpolated_df)
                          (map interval_mid null_no_growth) of
                 Inl e \<Rightarrow> Inl e
               | Inr d2 \<Rightarrow>
                   if sum_list d2 \<noteq> 0 then Inl (ValueError ''Timepoints are not aligned'')
                   else (case np_broadcast np_true_divide (map mean_dist interpolated_df)
                                (map mean_dist null_growth) of
                       Inl e \<Rightarrow> Inl e
                     | Inr with_growth \<Rightarrow>
                         (case np_broadcast np_true_divide (map mean_dist interpolated_df)
                                 (map mean_dist null_no_growth) of
                            Inl e \<Rightarrow> Inl e
                          | Inr no_growth \<Rightarrow>
                              (case plt_plot (map interval_mid interpolated_df) with_growth
                                      ''with growth'' of
                                 Inl e \<Rightarrow> Inl e
                               | Inr line1 \<Rightarrow>
                                   (case plt_plot (map interval_mid interpolated_df) no_growth
                                           ''no growth'' of
                                      Inl e \<Rightarrow> Inl e
                                    | Inr line2 \<Rightarrow>
                                        Inr [Figure,
                                             TitleScores (np_sum with_growth) (np_sum no_growth),
                                             XLabel ''time'', YLabel ''ratio'',
                                             line1, line2, Legend, Savefig filename]))))))"

definition timepoints_aligned :: "stat_row list \<Rightarrow> bool" where
  \<comment> \<open>The midpoints of \<open>I\<close> match those of \<open>Rg\<close> and of \<open>R\<close> one-to-one after sorting.\<close>
  "timepoints_aligned df =
     (let df' = sort_key interval_mid df
      in map interval_mid (series ''I'' df') = map interval_mid (series ''Rg'' df')
       \<and> map interval_mid (series ''I'' df') = map interval_mid (series ''R'' df'))"

definition misaligned_df :: "stat_row list" where
  \<comment> \<open>\<open>I\<close> at midpoints 1 and 4, both null series at 2 and 3.\<close>
  "misaligned_df =
     [\<lparr>series_name = ''I'', interval_mid = 1, mean_dist = 1\<rparr>,
      \<lparr>series_name = ''I'', interval_mid = 4, mean_dist = 1\<rparr>,
      \<lparr>series_name = ''Rg'', interval_mid = 2, mean_dist = 2\<rparr>,
      \<lparr>series_name = ''Rg'', interval_mid = 3, mean_dist = 2\<rparr>,
      \<lparr>series_name = ''R'', interval_mid = 2, mean_dist = 4\<rparr>,
      \<lparr>series_name = ''R'', interval_mid = 3, mean_dist = 4\<rparr>]"

subsection \<open>Fate datasets\<close>

text \<open>
  The annotated matrix the fate plots read: \<open>n_obs\<close> cells, one column per name of
  \<open>var_names\<close>, the entry of cell \<open>i\<close> in column \<open>j\<close> and the day of each cell.
\<close>

record fate_dataset =
  n_obs :: nat
  var_names :: "string list"
  X :: "nat \<Rightarrow> nat \<Rightarrow> real"
  obs_day :: "nat \<Rightarrow> real"

fun find_index_of :: "string \<Rightarrow> string list \<Rightarrow> nat option" where
  "find_index_of n [] = None"
| "find_index_of n (v # vs) =
     (if v = n then Some 0 else map_option Suc (find_index_of n vs))"

definition select_column :: "fate_dataset \<Rightarrow> nat list \<Rightarrow> string \<Rightarrow> py_error + real list" where
  \<comment> \<open>\<^verbatim>\<open>ds[:, name]\<close> restricted to the cells \<open>rows\<close>, then \<^verbatim>\<open>.X\<close> flattened.\<close>
  "select_column ds rows n =
     (case find_index_of n (var_names ds) of
        None \<Rightarrow> Inl (KeyError n)
      | Some j \<Rightarrow> Inr (map (\<lambda>i. X ds i j) rows))"

subsection \<open>plot\_log\_odds\<close>

definition np_divide_where ::
  "real list \<Rightarrow> real list \<Rightarrow> real list \<Rightarrow> bool list \<Rightarrow> real option list" where
  \<comment> \<open>\<^verbatim>\<open>np.divide(a, b, out=out, where=cond)\<close>: the quotient where the condition holds,
      the entry of \<open>out\<close> elsewhere.\<close>
  "np_divide_where a b out cond =
     map (\<lambda>((x, y), (z, m)). if m then np_true_divide x y else Some z)
       (zip (zip a b) (zip out cond))"

definition log_odds_quotient :: "real list \<Rightarrow> real list \<Rightarrow> real option list" where
  "log_odds_quotient fate1 fate2 =
     np_divide_where fate1 fate2 (map (\<lambda>_. 0) fate1) (map (\<lambda>b. b \<noteq> 0) fate2)"

definition log_odds :: "real list \<Rightarrow> real list \<Rightarrow> real option list" where
  \<comment> \<open>\<^verbatim>\<open>np.log(1e-9 + np.divide(fate1, fate2, out=np.zeros_like(fate1), where=fate2 != 0))\<close>\<close>
  "log_odds fate1 fate2 =
     map (\<lambda>q. case q of None \<Rightarrow> None | Some v \<Rightarrow> np_log (1 / 10 ^ 9 + v))
       (log_odds_quotient fate1 fate2)"

definition plot_log_odds ::
  "fate_dataset \<Rightarrow> string \<Rightarrow> string \<Rightarrow> string option \<Rightarrow> py_error + plot_cmd list" where
  "plot_log_odds fate_ds name1 name2 filename =
     (case select_column fate_ds [0 ..< n_obs fate_ds] name1 of
        Inl e \<Rightarrow> Inl e
      | Inr fate1 \<Rightarrow>
          (case select_column fate_ds [0 ..< n_obs fate_ds] name2 of
             Inl e \<Rightarrow> Inl e
           | Inr fate2 \<Rightarrow>
               Inr ([Figure,
                     Scatter (map (obs_day fate_ds) [0 ..< n_obs fate_ds]) (log_odds fate1 fate2),
                     XLabel ''Day'', YLabel ''Log Odds'',
                     TitleText (name1 @ '' vs. '' @ name2)]
                    @ (case filename of None \<Rightarrow> [] | Some f \<Rightarrow> [Savefig f]))))"

subsection \<open>plot\_triangle\<close>

text \<open>
  A name read in a function body is looked up among the function's locals, then the
  module's globals, then the builtins; a name bound in none of them raises
  \<^verbatim>\<open>NameError\<close>.  The globals of \<^verbatim>\<open>plot.py\<close> are the names its imports and
  its top-level definitions bind; of the builtins, the ones the module reads are listed.
\<close>

datatype py_value =
    DatasetV fate_dataset
  | FloatV real
  | StrV string
  | NoneV
  | FigureV
  | GlobalV string

definition plot_globals :: "string list" where
  "plot_globals =
     [''np'', ''pd'', ''patches'', ''plt'', ''wot'',
      ''__make_figure'', ''legend_figure'', ''interpolate'', ''kernel_smooth'',
      ''ot_validation_legend'', ''plot_ot_validation_ratio'',
      ''plot_ot_validation_summary_stats'', ''plot_triangle'', ''plot_log_odds'']"

definition py_builtins :: "string list" where
  "py_builtins = [''len'', ''range'', ''ValueError'', ''None'']"

definition load_name :: "(string \<times> py_value) list \<Rightarrow> string \<Rightarrow> py_error + py_value" where
  "load_name locals n =
     (case map_of locals n of
        Some v \<Rightarrow> Inr v
      | None \<Rightarrow>
          if n \<in> set plot_globals \<or> n \<in> set py_builtins then Inr (GlobalV n)
          else Inl (NameError n))"

definition as_dataset :: "py_value \<Rightarrow> py_error + fate_dataset" where
  "as_dataset v = (case v of DatasetV ds \<Rightarrow> Inr ds | _ \<Rightarrow> Inl (TypeError ''not subscriptable''))"

definition fate_on_day :: "(string \<times> py_value) list \<Rightarrow> string \<Rightarrow> real \<Rightarrow> py_error + real list" where
  \<comment> \<open>\<^verbatim>\<open>fate_ds[:,name][fate_ds.obs['day']==day].X.flatten()\<close>: the name
      \<open>fate_ds\<close> is read first.\<close>
  "fate_on_day locals n day =
     (case load_name locals ''fate_ds'' of
        Inl e \<Rightarrow> Inl e
      | Inr v \<Rightarrow>
          (case as_dataset v of
             Inl e \<Rightarrow> Inl e
           | Inr ds \<Rightarrow> select_column ds (filter (\<lambda>i. obs_day ds i = day) [0 ..< n_obs ds]) n))"

definition triangle_vertices :: "(real \<times> real) list" where
  "triangle_vertices =
     [(1, 0), (cos (2 * pi / 3), sin (2 * pi / 3)), (cos (4 * pi / 3), sin (4 * pi / 3))]"

definition barycentric :: "real \<Rightarrow> real \<Rightarrow> real \<times> real" where
  \<comment> \<open>\<^verbatim>\<open>ff @ P\<close> for \<open>ff = [f1, f2, 1 - (f1 + f2)]\<close>\<close>
  "barycentric f1 f2 =
     (let f3 = 1 - (f1 + f2)
      in (f1 * 1 + f2 * cos (2 * pi / 3) + f3 * cos (4 * pi / 3),
          f1 * 0 + f2 * sin (2 * pi / 3) + f3 * sin (4 * pi / 3)))"

definition triangle_params ::
  "fate_dataset \<Rightarrow> real \<Rightarrow> string \<Rightarrow> string \<Rightarrow> string option
     \<Rightarrow> (string \<times> py_value) list" where
  \<comment> \<open>the locals at entry: the five parameters\<close>
  "triangle_params fates_ds day name1 name2 filename =
     [(''fates_ds'', DatasetV fates_ds), (''day'', FloatV day),
      (''name1'', StrV name1), (''name2'', StrV name2),
      (''filename'', case filename of None \<Rightarrow> NoneV | Some f \<Rightarrow> StrV f)]"

definition plot_triangle ::
  "fate_dataset \<Rightarrow> real \<Rightarrow> string \<Rightarrow> string \<Rightarrow> string option
     \<Rightarrow> plot_cmd list \<times> py_error option" where
  \<comment> \<open>The calls made on matplotlib, and the exception that ended the body, if any.\<close>
  "plot_triangle fates_ds day name1 name2 filename =
     (let locals0 = triangle_params fates_ds day name1 name2 filename
      in case load_name locals0 ''plt'' of
           Inl e \<Rightarrow> ([], Some e)
         | Inr _ \<Rightarrow>
             (let locals1 = (''figure'', FigureV) # locals0
              in case fate_on_day locals1 name1 day of
                   Inl e \<Rightarrow> ([Figure], Some e)
                 | Inr fate1 \<Rightarrow>
                     (case fate_on_day locals1 name2 day of
                        Inl e \<Rightarrow> ([Figure], Some e)
                      | Inr fate2 \<Rightarrow>
                          (case load_name locals1 ''np'' of
                             Inl e \<Rightarrow> ([Figure], Some e)
                           | Inr _ \<Rightarrow>
                               (case load_name locals1 ''math'' of
                                  Inl e \<Rightarrow> ([Figure], Some e)
                                | Inr _ \<Rightarrow>
                                    (let P = triangle_vertices;
                                         xy = map2 barycentric fate1 fate2
                                     in ([Figure, Polygon P,
                                          Scatter (map fst P) (map (Some \<circ> snd) P),
                                          Scatter (map fst xy) (map (Some \<circ> snd) xy),
                                          TextAt (1 + 1 / 10) 0 name1,
                                          TextAt (cos (2 * pi / 3) - 1 / 10)
                                                 (sin (2 * pi / 3) + 1 / 10) name2,
                                          TextAt (cos (4 * pi / 3) - 1 / 10)
                                                 (sin (4 * pi / 3) - 2 / 10) ''Other'',
                                          Axis ''equal'', Axis ''off'',
                                          TitleDay name1 name2 day]
                                         @ (case filename of None \<Rightarrow> [] | Some f \<Rightarrow> [Savefig f]),
                                         None)))))))"

section \<open>bin/optimal\_transport.py\<close>

subsection \<open>Data\<close>

text \<open>
  A pandas frame is its row labels, its column labels and its matrix, row by row.  The
  labels of a transport map are cell ids, those of a cluster map cluster ids.  Both kinds
  of id have the type \<^verbatim>\<open>pd.read_table\<close> infers for their column (integers, numbers
  or strings): \<open>'c\<close> for cells, \<open>'k\<close> for clusters, the latter with the order of its
  values (a column of integers that gains missing entries in the join becomes a column
  of numbers, in the same order).
\<close>

type_synonym ('c, 'k) groups = "('k \<times> 'c list) list"

record 'l dataframe =
  df_index :: "'l list"
  df_columns :: "'l list"
  df_data :: "real list list"

definition frame_shaped :: "'l dataframe \<Rightarrow> bool" where
  \<comment> \<open>one row of the matrix per row label, one entry of each row per column label\<close>
  "frame_shaped df =
     (length (df_data df) = length (df_index df)
      \<and> list_all (\<lambda>row. length row = length (df_columns df)) (df_data df))"

definition pd_DataFrame :: "real list list \<Rightarrow> 'l list \<Rightarrow> 'l list \<Rightarrow> py_error + 'l dataframe" where
  \<comment> \<open>\<^verbatim>\<open>pd.DataFrame(data, index=index, columns=columns)\<close>: the shape of the data
      has to match the labels.\<close>
  "pd_DataFrame data index columns =
     (let df = \<lparr>df_index = index, df_columns = columns, df_data = data\<rparr>
      in if frame_shaped df then Inr df
         else Inl (ValueError ''Shape of passed values does not match the indices''))"

text \<open>
  A string object has an identity beside its characters: \<^verbatim>\<open>a is b\<close> compares the
  identities, \<^verbatim>\<open>a == b\<close> the characters.  The literal \<^verbatim>\<open>'floating_epsilon'\<close> of
  the script is one object, read at both mode tests.
\<close>

record str_obj =
  oid :: nat
  chars :: string

definition py_is :: "str_obj \<Rightarrow> str_obj \<Rightarrow> bool" where
  "py_is a b = (oid a = oid b)"

definition py_eq :: "str_obj \<Rightarrow> str_obj \<Rightarrow> bool" where
  "py_eq a b = (chars a = chars b)"

definition floating_epsilon_literal :: str_obj where
  "floating_epsilon_literal = \<lparr>oid = 0, chars = ''floating_epsilon''\<rparr>"

text \<open>The parsed command line (\<^verbatim>\<open>args\<close>), with the options the script reads.\<close>

record namespace =
  solver :: str_obj
  prefix :: string
  compress :: bool
  clusters :: "string option"
  verbose :: bool
  cluster_details :: bool

text \<open>What the helper hands to the callback for one pair of time points.\<close>

record solver_result =
  transport :: "real list list"
  epsilon :: real
  lambda1 :: real
  lambda2 :: real

record 'c cb_args =
  t0 :: real
  t1 :: real
  p0 :: "'c list"
  p1 :: "'c list"
  result :: solver_result

text \<open>
  The functions the script calls and the repository's sources do not hold: Python's
  \<^verbatim>\<open>str\<close> on a number and four functions of \<^verbatim>\<open>wot.ot\<close>.  They are parameters of
  the model, taken to return; every statement about the driver holds for all of them.
\<close>

record ('c, 'k) library =
  py_str :: "real \<Rightarrow> string"
  wot_get_column_weights :: "'c list \<Rightarrow> ('c, 'k) groups \<Rightarrow> 'k list \<Rightarrow> real list"
  wot_transport_map_by_cluster :: "'c dataframe \<Rightarrow> ('c, 'k) groups \<Rightarrow> 'k list \<Rightarrow> 'k dataframe"
  wot_get_weights ::
    "'c set \<Rightarrow> 'c list list \<Rightarrow> ('c, 'k) groups \<Rightarrow> 'k list \<Rightarrow> real list list"
  wot_transport_maps_by_time :: "'k dataframe list \<Rightarrow> real list list \<Rightarrow> 'k dataframe"

text \<open>
  What a run is given besides its options: the table \<^verbatim>\<open>pd.read_table\<close> parses at
  each readable path (cell id and cluster id per line), the cell ids of the expression
  table, and the results the helper delivers, one per pair of consecutive time points.
\<close>

record ('c, 'k) inputs =
  cluster_tables :: "string \<rightharpoonup> ('c \<times> 'k) list"
  gene_expression_index :: "'c list"
  solved :: "'c cb_args list"

text \<open>
  A file holds text or a table written by \<^verbatim>\<open>to_csv\<close>: the frame, the label of the
  index column, the separator, whether it is gzipped, and the quoting.
\<close>

datatype csv_quoting = QuoteMinimal | QuoteNone

datatype ('c, 'k) table = CellTable "'c dataframe" | ClusterTable "'k dataframe"

datatype ('c, 'k) file_content =
    Text string
  | Csv "('c, 'k) table" string string bool csv_quoting

text \<open>What a run does to files, in the order it does it.\<close>

datatype ('c, 'k) io_event =
    Opened string
  | Appended string string
  | Saved string "('c, 'k) file_content"

text \<open>
  The state of a run: the file system, the file events so far, the lines printed, the
  open audit file (its path and the text written to it so far) and the script's
  accumulators.  \<open>raised\<close> holds the exception that ended the run, if one did.
\<close>

record ('c, 'k) state =
  files :: "string \<rightharpoonup> ('c, 'k) file_content"
  trace :: "('c, 'k) io_event list"
  stdout :: "string list"
  params_writer :: "(string \<times> string) option"
  cluster_transport_maps :: "'k dataframe list"
  total_cluster_size :: "real list option"
  column_cell_ids_by_time :: "'c list list"
  all_cell_ids :: "'c set"
  raised :: "py_error option"

subsection \<open>Files and printing\<close>

definition open_w :: "string \<Rightarrow> ('c, 'k) state \<Rightarrow> ('c, 'k) state" where
  \<comment> \<open>\<^verbatim>\<open>params_writer = open(path, 'w')\<close>: the file is created or truncated.\<close>
  "open_w path st =
     st\<lparr>files := (files st)(path \<mapsto> Text []), trace := trace st @ [Opened path],
        params_writer := Some (path, [])\<rparr>"

definition writer_write :: "string \<Rightarrow> ('c, 'k) state \<Rightarrow> ('c, 'k) state" where
  \<comment> \<open>\<^verbatim>\<open>params_writer.write(s)\<close>; on \<^verbatim>\<open>None\<close> the attribute is missing.\<close>
  "writer_write s st =
     (case params_writer st of
        None \<Rightarrow> st\<lparr>raised := Some (AttributeError ''write'')\<rparr>
      | Some (path, buf) \<Rightarrow>
          st\<lparr>files := (files st)(path \<mapsto> Text (buf @ s)),
             trace := trace st @ [Appended path s],
             params_writer := Some (path, buf @ s)\<rparr>)"

definition to_csv ::
  "('c, 'k) table \<Rightarrow> string \<Rightarrow> string \<Rightarrow> bool \<Rightarrow> csv_quoting \<Rightarrow> ('c, 'k) state \<Rightarrow> ('c, 'k) state" where
  \<comment> \<open>\<^verbatim>\<open>frame.to_csv(path, index_label=..., sep='\t', compression=..., quoting=...)\<close>\<close>
  "to_csv frame path index_label gz quoting st =
     st\<lparr>files := (files st)(path \<mapsto> Csv frame index_label [CHR 0x09] gz quoting),
        trace := trace st @ [Saved path (Csv frame index_label [CHR 0x09] gz quoting)]\<rparr>"

definition print_if :: "bool \<Rightarrow> string \<Rightarrow> ('c, 'k) state \<Rightarrow> ('c, 'k) state" where
  "print_if b line st = (if b then st\<lparr>stdout := stdout st @ [line]\<rparr> else st)"

definition gz_suffix :: "namespace \<Rightarrow> string" where
  "gz_suffix args = (if compress args then ''.gz'' else [])"

definition params_path :: "namespace \<Rightarrow> string" where
  "params_path args = prefix args @ ''_params.txt''"

definition params_header :: string where
  "params_header =
     ''t1'' @ [CHR 0x09] @ ''t2'' @ [CHR 0x09] @ ''epsilon'' @ [CHR 0x09] @ ''lambda1''
       @ [CHR 0x09] @ ''lambda2'' @ [CHR 0x0A]"

definition params_row :: "('c, 'k) library \<Rightarrow> 'c cb_args \<Rightarrow> string" where
  "params_row L cb =
     py_str L (t0 cb) @ [CHR 0x09] @ py_str L (t1 cb) @ [CHR 0x09]
       @ py_str L (epsilon (result cb)) @ [CHR 0x09] @ py_str L (lambda1 (result cb))
       @ [CHR 0x09] @ py_str L (lambda2 (result cb)) @ [CHR 0x0A]"

definition cluster_map_path :: "('c, 'k) library \<Rightarrow> namespace \<Rightarrow> 'c cb_args \<Rightarrow> string" where
  "cluster_map_path L args cb =
     prefix args @ ''_cluster_'' @ py_str L (t0 cb) @ ''_'' @ py_str L (t1 cb) @ ''.txt''
       @ gz_suffix args"

definition transport_map_path :: "('c, 'k) library \<Rightarrow> namespace \<Rightarrow> 'c cb_args \<Rightarrow> string" where
  "transport_map_path L args cb =
     prefix args @ ''_'' @ py_str L (t0 cb) @ ''_'' @ py_str L (t1 cb) @ ''.txt''
       @ gz_suffix args"

definition cluster_summary_path :: "namespace \<Rightarrow> string" where
  "cluster_summary_path args = prefix args @ ''_cluster_summary.txt'' @ gz_suffix args"

subsection \<open>Reading and aligning the cluster table\<close>

text \<open>
  \<^verbatim>\<open>clusters.align(ot_helper.gene_expression, join='right', axis=0)[0]\<close> re-indexes the
  cluster table on the cell ids of the expression table: a right join.  Each cell id of
  the expression table keeps the rows the cluster table has for it, or gets one row with
  a missing cluster.  \<^verbatim>\<open>groupby\<close> leaves out the rows with a missing cluster and
  orders the groups by the value of the cluster id.
\<close>

definition align_right :: "('c \<times> 'k) list \<Rightarrow> 'c list \<Rightarrow> ('c \<times> 'k option) list" where
  "align_right tbl idx =
     concat (map (\<lambda>i. case filter (\<lambda>r. fst r = i) tbl of
                         [] \<Rightarrow> [(i, None)]
                       | r # rs \<Rightarrow> map (\<lambda>m. (i, Some (snd m))) (r # rs)) idx)"

definition groupby_cluster :: "('c \<times> ('k::linorder) option) list \<Rightarrow> ('c, 'k) groups" where
  "groupby_cluster tbl =
     map (\<lambda>k. (k, map fst (filter (\<lambda>r. snd r = Some k) tbl)))
       (sort (remdups (List.map_filter snd tbl)))"

subsection \<open>The callback\<close>

definition transport_frame :: "'c cb_args \<Rightarrow> 'c dataframe" where
  \<comment> \<open>the frame of line 47, when its shape is accepted\<close>
  "transport_frame cb =
     \<lparr>df_index = p0 cb, df_columns = p1 cb, df_data = transport (result cb)\<rparr>"

definition make_transport_map :: "'c cb_args \<Rightarrow> py_error + 'c dataframe" where
  \<comment> \<open>\<^verbatim>\<open>pd.DataFrame(result['transport'], index=cb_args['p0'].index,
      columns=cb_args['p1'].index)\<close>\<close>
  "make_transport_map cb = pd_DataFrame (transport (result cb)) (p0 cb) (p1 cb)"

text \<open>The callback in its three parts: the audit row, the summary by cluster, the map.\<close>

definition log_params ::
  "('c, 'k) library \<Rightarrow> namespace \<Rightarrow> 'c cb_args \<Rightarrow> ('c, 'k) state \<Rightarrow> ('c, 'k) state" where
  \<comment> \<open>lines 42 to 46\<close>
  "log_params L args cb st =
     (if py_is (solver args) floating_epsilon_literal
      then writer_write (params_row L cb) st else st)"

definition summarize_by_cluster ::
  "('c, 'k) library \<Rightarrow> namespace \<Rightarrow> ('c, 'k) groups \<Rightarrow> 'k list \<Rightarrow> 'c cb_args \<Rightarrow> 'c dataframe
     \<Rightarrow> ('c, 'k) state \<Rightarrow> ('c, 'k) state" where
  \<comment> \<open>lines 48 to 66\<close>
  "summarize_by_cluster L args grouped_by_cluster cluster_ids cb transport_map st =
     (case clusters args of
        None \<Rightarrow> st
      | Some _ \<Rightarrow>
          (let cluster_transport_map =
                 wot_transport_map_by_cluster L transport_map grouped_by_cluster cluster_ids;
               s1 = st\<lparr>all_cell_ids :=
                         (all_cell_ids st \<union> set (df_columns transport_map))
                           \<union> set (df_index transport_map)\<rparr>;
               s2 = s1\<lparr>column_cell_ids_by_time :=
                         column_cell_ids_by_time s1 @ [df_columns transport_map]\<rparr>;
               s3 = print_if (verbose args) ''Summarized transport map by cluster'' s2;
               s4 = (if cluster_details args
                     then to_csv (ClusterTable cluster_transport_map)
                            (cluster_map_path L args cb) ''id'' (compress args) QuoteMinimal
                            (print_if (verbose args) ''Saving cluster transport map'' s3)
                     else s3)
           in s4\<lparr>cluster_transport_maps :=
                    cluster_transport_maps s4 @ [cluster_transport_map]\<rparr>))"

definition save_transport_map ::
  "('c, 'k) library \<Rightarrow> namespace \<Rightarrow> 'c cb_args \<Rightarrow> 'c dataframe \<Rightarrow> ('c, 'k) state \<Rightarrow> ('c, 'k) state" where
  \<comment> \<open>lines 70 to 78\<close>
  "save_transport_map L args cb transport_map st =
     to_csv (CellTable transport_map) (transport_map_path L args cb) ''id'' (compress args)
       QuoteNone (print_if (verbose args) ''Saving transport map'' st)"

definition callback ::
  "('c, 'k) library \<Rightarrow> namespace \<Rightarrow> ('c, 'k) groups \<Rightarrow> 'k list \<Rightarrow> 'c cb_args
     \<Rightarrow> ('c, 'k) state \<Rightarrow> ('c, 'k) state" where
  "callback L args grouped_by_cluster cluster_ids cb st =
     (let st1 = log_params L args cb st
      in if raised st1 \<noteq> None then st1
         else
           (case make_transport_map cb of
              Inl e \<Rightarrow> st1\<lparr>raised := Some e\<rparr>
            | Inr transport_map \<Rightarrow>
                save_transport_map L args cb transport_map
                  (summarize_by_cluster L args grouped_by_cluster cluster_ids cb
                     transport_map st1)))"

text \<open>
  Modelled from the spec: \<^verbatim>\<open>wot.ot.OptimalTransportHelper.compute_transport_maps\<close> is
  not among the sources.  The spec has the driver go through the pairs of consecutive
  time points strictly in sequence and invoke the callback once per pair, synchronously;
  an exception of the callback ends the run.
\<close>

fun compute_transport_maps ::
  "('c cb_args \<Rightarrow> ('c, 'k) state \<Rightarrow> ('c, 'k) state) \<Rightarrow> 'c cb_args list \<Rightarrow> ('c, 'k) state
     \<Rightarrow> ('c, 'k) state" where
  "compute_transport_maps cb [] st = st"
| "compute_transport_maps cb (a # as) st =
     (let st' = cb a st
      in if raised st' = None then compute_transport_maps cb as st' else st')"

subsection \<open>The script\<close>

definition initial_state :: "(string \<rightharpoonup> ('c, 'k) file_content) \<Rightarrow> ('c, 'k) state" where
  "initial_state fs =
     \<lparr>files = fs, trace = [], stdout = [], params_writer = None, cluster_transport_maps = [],
      total_cluster_size = None, column_cell_ids_by_time = [], all_cell_ids = {},
      raised = None\<rparr>"

definition open_params :: "namespace \<Rightarrow> ('c, 'k) state \<Rightarrow> ('c, 'k) state" where
  \<comment> \<open>lines 15 to 19\<close>
  "open_params args st =
     (if py_is (solver args) floating_epsilon_literal
      then writer_write params_header (open_w (params_path args) st)
      else st)"

definition save_summary ::
  "('c, 'k) library \<Rightarrow> namespace \<Rightarrow> ('c, 'k) groups \<Rightarrow> 'k list \<Rightarrow> ('c, 'k) state
     \<Rightarrow> ('c, 'k) state" where
  \<comment> \<open>lines 83 to 101, reached when line 81 returned\<close>
  "save_summary L args grouped_by_cluster cluster_ids st =
     (if raised st \<noteq> None then st
      else
        (case clusters args of
           None \<Rightarrow> st
         | Some _ \<Rightarrow>
             (let s1 = print_if (verbose args) ''Saving summarized transport map'' st;
                  cluster_weights_by_time =
                    wot_get_weights L (all_cell_ids s1) (column_cell_ids_by_time s1)
                      grouped_by_cluster cluster_ids;
                  combined_cluster_map =
                    wot_transport_maps_by_time L (cluster_transport_maps s1)
                      cluster_weights_by_time
              in to_csv (ClusterTable combined_cluster_map) (cluster_summary_path args) ''id''
                   (compress args) QuoteMinimal s1)))"

definition main ::
  "('c, 'k::linorder) library \<Rightarrow> namespace \<Rightarrow> ('c, 'k) inputs
     \<Rightarrow> (string \<rightharpoonup> ('c, 'k) file_content) \<Rightarrow> ('c, 'k) state" where
  "main L args inp fs =
     (let st = open_params args (initial_state fs)
      in case clusters args of
           None \<Rightarrow>
             save_summary L args [] []
               (compute_transport_maps (callback L args [] []) (solved inp) st)
         | Some path \<Rightarrow>
             (case cluster_tables inp path of
                None \<Rightarrow> st\<lparr>raised := Some (FileNotFoundError path)\<rparr>
              | Some tbl \<Rightarrow>
                  (let aligned = align_right tbl (gene_expression_index inp);
                       grouped_by_cluster = groupby_cluster aligned;
                       cluster_ids = map fst grouped_by_cluster;
                       st' = st\<lparr>total_cluster_size :=
                                  Some (wot_get_column_weights L (map fst aligned)
                                          grouped_by_cluster cluster_ids)\<rparr>
                   in save_summary L args grouped_by_cluster cluster_ids
                        (compute_transport_maps
                           (callback L args grouped_by_cluster cluster_ids) (solved inp) st'))))"

definition cluster_groups :: "('c, 'k::linorder) inputs \<Rightarrow> ('c \<times> 'k) list \<Rightarrow> ('c, 'k) groups" where
  \<comment> \<open>\<open>grouped_by_cluster\<close> as the script computes it from the table of the clusters file\<close>
  "cluster_groups inp tbl = groupby_cluster (align_right tbl (gene_expression_index inp))"

subsection \<open>The table files of a run\<close>

text \<open>
  The events that save a table: the transport map of a pair (line 72), the cluster map
  of a pair (line 59) and the combined summary (line 95), each with the frame, the path
  and the format the script gives it; and the two kinds of table among the events.
\<close>

definition transport_map_event ::
  "('c, 'k) library \<Rightarrow> namespace \<Rightarrow> 'c cb_args \<Rightarrow> ('c, 'k) io_event" where
  "transport_map_event L args cb =
     Saved (transport_map_path L args cb)
       (Csv (CellTable (transport_frame cb)) ''id'' [CHR 0x09] (compress args) QuoteNone)"

definition cluster_map_event ::
  "('c, 'k) library \<Rightarrow> namespace \<Rightarrow> ('c, 'k) groups \<Rightarrow> 'k list \<Rightarrow> 'c cb_args
     \<Rightarrow> ('c, 'k) io_event" where
  "cluster_map_event L args g ids cb =
     Saved (cluster_map_path L args cb)
       (Csv (ClusterTable (wot_transport_map_by_cluster L (transport_frame cb) g ids))
          ''id'' [CHR 0x09] (compress args) QuoteMinimal)"

definition summary_file ::
  "('c, 'k) library \<Rightarrow> namespace \<Rightarrow> ('c, 'k) groups \<Rightarrow> 'k list \<Rightarrow> 'c cb_args list
     \<Rightarrow> ('c, 'k) file_content" where
  \<comment> \<open>the combination of the cluster maps of the pairs \<open>cbs\<close>, in their order, with the
      weights of all their cells and of the column cells of each pair\<close>
  "summary_file L args g ids cbs =
     Csv (ClusterTable
            (wot_transport_maps_by_time L
               (map (\<lambda>cb. wot_transport_map_by_cluster L (transport_frame cb) g ids) cbs)
               (wot_get_weights L (\<Union>cb \<in> set cbs. set (p1 cb) \<union> set (p0 cb))
                  (map p1 cbs) g ids)))
       ''id'' [CHR 0x09] (compress args) QuoteMinimal"

definition summary_event ::
  "('c, 'k) library \<Rightarrow> namespace \<Rightarrow> ('c, 'k) groups \<Rightarrow> 'k list \<Rightarrow> 'c cb_args list
     \<Rightarrow> ('c, 'k) io_event" where
  "summary_event L args g ids cbs =
     Saved (cluster_summary_path args) (summary_file L args g ids cbs)"

fun is_cell_save :: "('c, 'k) io_event \<Rightarrow> bool" where
  "is_cell_save (Saved p (Csv (CellTable f) l s g q)) = True"
| "is_cell_save _ = False"

fun is_cluster_save :: "('c, 'k) io_event \<Rightarrow> bool" where
  "is_cluster_save (Saved p (Csv (ClusterTable f) l s g q)) = True"
| "is_cluster_save _ = False"

definition all_shaped :: "'c cb_args list \<Rightarrow> bool" where
  \<comment> \<open>every result's matrix has the shape of its labels\<close>
  "all_shaped cbs = list_all (\<lambda>cb. frame_shaped (transport_frame cb)) cbs"

subsection \<open>Comparing two runs\<close>

text \<open>
  Two final states show the same run when they agree on everything but the file system
  and, path by path, the files either have the same content or are in both runs the
  files the run started with.
\<close>

definition agree_off_files :: "('c, 'k) state \<Rightarrow> ('c, 'k) state \<Rightarrow> bool" where
  "agree_off_files s1 s2 =
     (trace s1 = trace s2 \<and> stdout s1 = stdout s2 \<and> params_writer s1 = params_writer s2
      \<and> cluster_transport_maps s1 = cluster_transport_maps s2
      \<and> total_cluster_size s1 = total_cluster_size s2
      \<and> column_cell_ids_by_time s1 = column_cell_ids_by_time s2
      \<and> all_cell_ids s1 = all_cell_ids s2 \<and> raised s1 = raised s2)"

definition same_outputs ::
  "(string \<rightharpoonup> ('c, 'k) file_content) \<Rightarrow> (string \<rightharpoonup> ('c, 'k) file_content)
     \<Rightarrow> ('c, 'k) state \<Rightarrow> ('c, 'k) state \<Rightarrow> bool" where
  "same_outputs fs1 fs2 s1 s2 =
     (agree_off_files s1 s2
      \<and> (\<forall>p. files s1 p = files s2 p \<or> (files s1 p = fs1 p \<and> files s2 p = fs2 p)))"

section \<open>Summarising a transport map by cluster\<close>

text \<open>
  Modelled from the spec: \<^verbatim>\<open>wot.ot.transport_map_by_cluster\<close> is called by the
  driver and is not among the sources.  The spec's ClusterSummarizer: for each pair of a
  source cluster and a destination cluster, sum the entries whose row cell belongs to
  the source cluster and whose column cell belongs to the destination cluster; both axes
  of the result carry the full list of cluster ids, and a cluster without members gives
  zeros.
\<close>

definition members :: "('c, 'k) groups \<Rightarrow> 'k \<Rightarrow> 'c list" where
  "members g c = (case map_of g c of None \<Rightarrow> [] | Some cells \<Rightarrow> cells)"

definition bucket_row :: "'c list \<Rightarrow> 'c list \<Rightarrow> real list \<Rightarrow> real" where
  \<comment> \<open>the mass one row sends into the cells of \<open>dst\<close>\<close>
  "bucket_row dst cols row =
     sum_list (map (\<lambda>cv. if fst cv \<in> set dst then snd cv else 0) (zip cols row))"

definition bucket_mass :: "'c dataframe \<Rightarrow> 'c list \<Rightarrow> 'c list \<Rightarrow> real" where
  "bucket_mass tm src dst =
     sum_list (map (\<lambda>rr. if fst rr \<in> set src then bucket_row dst (df_columns tm) (snd rr) else 0)
                 (zip (df_index tm) (df_data tm)))"

definition transport_map_by_cluster :: "'c dataframe \<Rightarrow> ('c, 'k) groups \<Rightarrow> 'k list \<Rightarrow> 'k dataframe" where
  "transport_map_by_cluster tm g ids =
     \<lparr>df_index = ids, df_columns = ids,
      df_data = map (\<lambda>c1. map (\<lambda>c2. bucket_mass tm (members g c1) (members g c2)) ids) ids\<rparr>"

definition frame_sum :: "'l dataframe \<Rightarrow> real" where
  "frame_sum df = sum_list (map sum_list (df_data df))"

definition in_one_cluster :: "('c, 'k) groups \<Rightarrow> 'k list \<Rightarrow> 'c \<Rightarrow> bool" where
  \<comment> \<open>the cell is a member of exactly one entry of the list of cluster ids\<close>
  "in_one_cluster g ids x = (length (filter (\<lambda>c. x \<in> set (members g c)) ids) = 1)"

section \<open>Concrete inputs\<close>

text \<open>
  Inputs at which the definitions are evaluated below.  \<open>argv_floating_epsilon\<close> is the
  string \<^verbatim>\<open>floating_epsilon\<close> as the command line delivers it: the same characters
  in an object of its own.  \<open>plain_library\<close> prints the numbers 0 and 1 and returns
  empty frames and weights.  The cells are named by strings.
\<close>

definition argv_floating_epsilon :: str_obj where
  "argv_floating_epsilon = \<lparr>oid = 1, chars = ''floating_epsilon''\<rparr>"

definition argv_fixed :: str_obj where
  "argv_fixed = \<lparr>oid = 2, chars = ''fixed''\<rparr>"

definition empty_frame :: "'l dataframe" where
  "empty_frame = \<lparr>df_index = [], df_columns = [], df_data = []\<rparr>"

definition plain_library :: "(string, 'k) library" where
  "plain_library =
     \<lparr>py_str = (\<lambda>r. if r = 0 then ''0'' else ''1''),
      wot_get_column_weights = (\<lambda>_ _ _. []),
      wot_transport_map_by_cluster = (\<lambda>_ _ _. empty_frame),
      wot_get_weights = (\<lambda>_ _ _ _. []),
      wot_transport_maps_by_time = (\<lambda>_ _. empty_frame)\<rparr>"

definition one_pair :: "string cb_args" where
  "one_pair =
     \<lparr>t0 = 0, t1 = 1, p0 = [''a''], p1 = [''b''],
      result = \<lparr>transport = [[1]], epsilon = 1, lambda1 = 1, lambda2 = 1\<rparr>\<rparr>"

definition ragged_pair :: "string cb_args" where
  \<comment> \<open>two entries in the one row, for the one column label\<close>
  "ragged_pair =
     \<lparr>t0 = 0, t1 = 1, p0 = [''a''], p1 = [''b''],
      result = \<lparr>transport = [[1, 2]], epsilon = 1, lambda1 = 1, lambda2 = 1\<rparr>\<rparr>"

definition run_args :: "str_obj \<Rightarrow> string option \<Rightarrow> bool \<Rightarrow> namespace" where
  "run_args mode cl details =
     \<lparr>solver = mode, prefix = ''out'', compress = False, clusters = cl, verbose = False,
      cluster_details = details\<rparr>"

definition run_inputs :: "(string \<times> 'k) list \<Rightarrow> (string, 'k) inputs" where
  \<comment> \<open>the cluster file \<^verbatim>\<open>c.txt\<close> holds the table; the expression table has cells a and b\<close>
  "run_inputs tbl =
     \<lparr>cluster_tables = [''c.txt'' \<mapsto> tbl], gene_expression_index = [''a'', ''b''],
      solved = [one_pair]\<rparr>"

definition unit_map :: "string dataframe" where
  \<comment> \<open>one unit of mass from cell a to cell b\<close>
  "unit_map = \<lparr>df_index = [''a''], df_columns = [''b''], df_data = [[1]]\<rparr>"

section \<open>Properties of the plotting helpers\<close>

subsection \<open>plot\_ot\_validation\_ratio and misaligned series\<close>

text \<open>
  C3.  The claim: whenever the midpoints of \<open>I\<close> and of a null series do not match
  one-to-one after sorting, the function raises \<^verbatim>\<open>ValueError('Timepoints are not
  aligned')\<close>.  The check of the code compares the sum of the differences with zero.
  In \<open>misaligned_df\<close> the series \<open>I\<close> has the midpoints 1 and 4 and both null series
  have 2 and 3: the differences are \<open>-1\<close> and \<open>1\<close>, their sum is zero, and the function
  draws the plot from the mismatched rows.
\<close>

theorem plot_ot_validation_ratio_misaligned:
  "\<not> timepoints_aligned misaligned_df
   \<and> plot_ot_validation_ratio misaligned_df ''ratio.png'' =
       Inr [Figure, TitleScores (Some 1) (Some (1 / 2)), XLabel ''time'', YLabel ''ratio'',
            PlotLine [1, 4] [Some (1 / 2), Some (1 / 2)] ''with growth'',
            PlotLine [1, 4] [Some (1 / 4), Some (1 / 4)] ''no growth'',
            Legend, Savefig ''ratio.png'']"
proof
  show "\<not> timepoints_aligned misaligned_df"
    by (simp add: timepoints_aligned_def misaligned_df_def series_def)
  show "plot_ot_validation_ratio misaligned_df ''ratio.png'' =
       Inr [Figure, TitleScores (Some 1) (Some (1 / 2)), XLabel ''time'', YLabel ''ratio'',
            PlotLine [1, 4] [Some (1 / 2), Some (1 / 2)] ''with growth'',
            PlotLine [1, 4] [Some (1 / 4), Some (1 / 4)] ''no growth'',
            Legend, Savefig ''ratio.png'']"
    by (simp add: plot_ot_validation_ratio_def misaligned_df_def series_def np_broadcast_def
        np_true_divide_def plt_plot_def np_sum_def)
qed

subsection \<open>plot\_triangle reads unbound names\<close>

text \<open>
  C8.  For every input, \<open>plot_triangle\<close> ends with \<^verbatim>\<open>NameError\<close> on the name
  \<open>fate_ds\<close> (the parameter is \<open>fates_ds\<close>) after the figure was opened and before
  anything is drawn; the name \<open>math\<close>, read further down, is bound nowhere either.
\<close>

theorem plot_triangle_name_error:
  "plot_triangle fates_ds day name1 name2 filename = ([Figure], Some (NameError ''fate_ds''))
   \<and> load_name ((''figure'', FigureV) # triangle_params fates_ds day name1 name2 filename)
        ''math'' = Inl (NameError ''math'')"
  by (simp add: plot_triangle_def triangle_params_def fate_on_day_def load_name_def
      plot_globals_def py_builtins_def)

theorem plot_triangle_name_error_witness:
  "plot_triangle \<lparr>n_obs = 1, var_names = [''A'', ''B''], X = (\<lambda>i j. 1 / 2), obs_day = (\<lambda>i. 0)\<rparr>
     0 ''A'' ''B'' None = ([Figure], Some (NameError ''fate_ds''))"
  using plot_triangle_name_error
    [of "\<lparr>n_obs = 1, var_names = [''A'', ''B''], X = (\<lambda>i j. 1 / 2), obs_day = (\<lambda>i. 0)\<rparr>"
        0 "''A''" "''B''" None]
  by simp

subsection \<open>plot\_log\_odds never divides by zero\<close>

text \<open>
  C9.  For every pair of fate vectors, no division of the log-odds computation has a
  zero divisor (\<open>np_true_divide\<close> gives \<open>None\<close> exactly there, and the array of
  quotients holds no \<open>None\<close>), and an entry whose denominator fate is zero evaluates to
  \<open>log 1e-9\<close>.  \<open>plot_log_odds\<close> applies the computation to two columns of one
  dataset, which have the same length.
\<close>

theorem log_odds_no_zero_division:
  "None \<notin> set (log_odds_quotient fate1 fate2)
   \<and> (length fate1 = length fate2 \<and> i < length fate2 \<and> fate2 ! i = 0
        \<longrightarrow> log_odds fate1 fate2 ! i = Some (ln (1 / 10 ^ 9)))"
proof
  show "None \<notin> set (log_odds_quotient fate1 fate2)"
    unfolding log_odds_quotient_def np_divide_where_def np_true_divide_def
    by (auto simp: set_zip split: if_splits)
  show "length fate1 = length fate2 \<and> i < length fate2 \<and> fate2 ! i = 0
        \<longrightarrow> log_odds fate1 fate2 ! i = Some (ln (1 / 10 ^ 9))"
    unfolding log_odds_def log_odds_quotient_def np_divide_where_def np_log_def
    by simp
qed

theorem log_odds_no_zero_division_witness:
  "length [1, 2 :: real] = length [0, 4 :: real] \<and> (0::nat) < length [0, 4 :: real]
   \<and> [0, 4 :: real] ! 0 = 0
   \<and> None \<notin> set (log_odds_quotient [1, 2] [0, 4])
   \<and> log_odds [1, 2] [0, 4] ! 0 = Some (ln (1 / 10 ^ 9))"
  using log_odds_no_zero_division [of "[1, 2]" "[0, 4]" 0] by simp

section \<open>Properties of the driver\<close>

subsection \<open>The mode test compares identities\<close>

text \<open>
  C5.  The claim: the test \<^verbatim>\<open>args.solver is 'floating_epsilon'\<close> decides as
  \<^verbatim>\<open>args.solver == 'floating_epsilon'\<close> would.  For the string the command line
  delivers, an object of its own, the characters are equal and the identities are not.
\<close>

theorem mode_test_identity_differs:
  "py_eq argv_floating_epsilon floating_epsilon_literal
   \<and> \<not> py_is argv_floating_epsilon floating_epsilon_literal"
  by (simp add: py_eq_def py_is_def argv_floating_epsilon_def floating_epsilon_literal_def)

text \<open>
  C4.  The claim: in the mode \<open>floating_epsilon\<close> the driver creates the audit file and
  appends one row per pair.  With \<^verbatim>\<open>--solver floating_epsilon\<close> on the command line
  and one solved pair, the run writes the transport map of the pair and no audit file.
\<close>

theorem no_audit_file_for_argv_mode:
  "chars (solver (run_args argv_floating_epsilon None False)) = ''floating_epsilon''
   \<and> files (main plain_library (run_args argv_floating_epsilon None False) (run_inputs [])
        Map.empty) ''out_params.txt'' = None
   \<and> files (main plain_library (run_args argv_floating_epsilon None False) (run_inputs [])
        Map.empty) ''out_0_1.txt'' \<noteq> None
   \<and> raised (main plain_library (run_args argv_floating_epsilon None False) (run_inputs [])
        Map.empty) = None"
  by (simp add: main_def run_args_def run_inputs_def one_pair_def plain_library_def
      argv_floating_epsilon_def floating_epsilon_literal_def py_is_def open_params_def
      initial_state_def callback_def log_params_def summarize_by_cluster_def
      save_transport_map_def save_summary_def to_csv_def print_if_def
      transport_map_path_def gz_suffix_def make_transport_map_def pd_DataFrame_def
      frame_shaped_def)

subsection \<open>What the callback and the script do to the state\<close>

lemma log_params_fields:
  assumes "raised st = None"
    and "py_is (solver args) floating_epsilon_literal \<longrightarrow> params_writer st \<noteq> None"
  shows "raised (log_params L args cb st) = None"
    and "py_is (solver args) floating_epsilon_literal \<longrightarrow>
           params_writer (log_params L args cb st) \<noteq> None"
    and "cluster_transport_maps (log_params L args cb st) = cluster_transport_maps st"
    and "column_cell_ids_by_time (log_params L args cb st) = column_cell_ids_by_time st"
    and "all_cell_ids (log_params L args cb st) = all_cell_ids st"
    and "filter is_cell_save (trace (log_params L args cb st)) = filter is_cell_save (trace st)"
    and "filter is_cluster_save (trace (log_params L args cb st))
           = filter is_cluster_save (trace st)"
  using assms by (auto simp: log_params_def writer_write_def split: option.splits)

lemma summarize_fields:
  "raised (summarize_by_cluster L args g ids cb tm st) = raised st"
  "params_writer (summarize_by_cluster L args g ids cb tm st) = params_writer st"
  "cluster_transport_maps (summarize_by_cluster L args g ids cb tm st) =
     cluster_transport_maps st
       @ (case clusters args of None \<Rightarrow> []
          | Some _ \<Rightarrow> [wot_transport_map_by_cluster L tm g ids])"
  "column_cell_ids_by_time (summarize_by_cluster L args g ids cb tm st) =
     column_cell_ids_by_time st
       @ (case clusters args of None \<Rightarrow> [] | Some _ \<Rightarrow> [df_columns tm])"
  "all_cell_ids (summarize_by_cluster L args g ids cb tm st) =
     all_cell_ids st
       \<union> (case clusters args of None \<Rightarrow> {}
          | Some _ \<Rightarrow> set (df_columns tm) \<union> set (df_index tm))"
  "filter is_cell_save (trace (summarize_by_cluster L args g ids cb tm st))
     = filter is_cell_save (trace st)"
  "filter is_cluster_save (trace (summarize_by_cluster L args g ids cb tm st))
     = filter is_cluster_save (trace st)
       @ (case clusters args of None \<Rightarrow> []
          | Some _ \<Rightarrow>
              if cluster_details args
              then [Saved (cluster_map_path L args cb)
                      (Csv (ClusterTable (wot_transport_map_by_cluster L tm g ids))
                         ''id'' [CHR 0x09] (compress args) QuoteMinimal)]
              else [])"
  by (auto simp: summarize_by_cluster_def Let_def to_csv_def print_if_def split: option.splits)

lemma save_map_fields:
  "raised (save_transport_map L args cb tm st) = raised st"
  "params_writer (save_transport_map L args cb tm st) = params_writer st"
  "cluster_transport_maps (save_transport_map L args cb tm st) = cluster_transport_maps st"
  "column_cell_ids_by_time (save_transport_map L args cb tm st) = column_cell_ids_by_time st"
  "all_cell_ids (save_transport_map L args cb tm st) = all_cell_ids st"
  "filter is_cell_save (trace (save_transport_map L args cb tm st))
     = filter is_cell_save (trace st)
       @ [Saved (transport_map_path L args cb)
            (Csv (CellTable tm) ''id'' [CHR 0x09] (compress args) QuoteNone)]"
  "filter is_cluster_save (trace (save_transport_map L args cb tm st))
     = filter is_cluster_save (trace st)"
  by (auto simp: save_transport_map_def to_csv_def print_if_def)

lemma make_transport_map_shaped:
  "frame_shaped (transport_frame cb) \<Longrightarrow> make_transport_map cb = Inr (transport_frame cb)"
  by (simp add: make_transport_map_def pd_DataFrame_def transport_frame_def Let_def)

lemma callback_fields:
  assumes "raised st = None"
    and "py_is (solver args) floating_epsilon_literal \<longrightarrow> params_writer st \<noteq> None"
    and "frame_shaped (transport_frame cb)"
  shows "raised (callback L args g ids cb st) = None"
    and "py_is (solver args) floating_epsilon_literal \<longrightarrow>
           params_writer (callback L args g ids cb st) \<noteq> None"
    and "cluster_transport_maps (callback L args g ids cb st) =
          cluster_transport_maps st
            @ (case clusters args of None \<Rightarrow> []
               | Some _ \<Rightarrow> [wot_transport_map_by_cluster L (transport_frame cb) g ids])"
    and "column_cell_ids_by_time (callback L args g ids cb st) =
          column_cell_ids_by_time st
            @ (case clusters args of None \<Rightarrow> [] | Some _ \<Rightarrow> [p1 cb])"
    and "all_cell_ids (callback L args g ids cb st) =
          all_cell_ids st
            \<union> (case clusters args of None \<Rightarrow> {} | Some _ \<Rightarrow> set (p1 cb) \<union> set (p0 cb))"
    and "filter is_cell_save (trace (callback L args g ids cb st))
          = filter is_cell_save (trace st) @ [transport_map_event L args cb]"
    and "filter is_cluster_save (trace (callback L args g ids cb st))
          = filter is_cluster_save (trace st)
            @ (case clusters args of None \<Rightarrow> []
               | Some _ \<Rightarrow> if cluster_details args then [cluster_map_event L args g ids cb]
                           else [])"
proof -
  note lp = log_params_fields [OF assms(1) assms(2), where L = L and cb = cb]
  let ?s1 = "log_params L args cb st"
  let ?s2 = "summarize_by_cluster L args g ids cb (transport_frame cb) ?s1"
  have cb: "callback L args g ids cb st = save_transport_map L args cb (transport_frame cb) ?s2"
    using lp(1) make_transport_map_shaped [OF assms(3)] by (simp add: callback_def Let_def)
  show "raised (callback L args g ids cb st) = None"
    by (simp add: cb save_map_fields summarize_fields lp)
  show "py_is (solver args) floating_epsilon_literal \<longrightarrow>
           params_writer (callback L args g ids cb st) \<noteq> None"
    using lp(2) by (simp add: cb save_map_fields summarize_fields)
  show "cluster_transport_maps (callback L args g ids cb st) =
          cluster_transport_maps st
            @ (case clusters args of None \<Rightarrow> []
               | Some _ \<Rightarrow> [wot_transport_map_by_cluster L (transport_frame cb) g ids])"
    by (simp add: cb save_map_fields summarize_fields lp)
  show "column_cell_ids_by_time (callback L args g ids cb st) =
          column_cell_ids_by_time st
            @ (case clusters args of None \<Rightarrow> [] | Some _ \<Rightarrow> [p1 cb])"
    by (simp add: cb save_map_fields summarize_fields lp transport_frame_def
        split: option.splits)
  show "all_cell_ids (callback L args g ids cb st) =
          all_cell_ids st
            \<union> (case clusters args of None \<Rightarrow> {} | Some _ \<Rightarrow> set (p1 cb) \<union> set (p0 cb))"
    by (simp add: cb save_map_fields summarize_fields lp transport_frame_def
        split: option.splits)
  show "filter is_cell_save (trace (callback L args g ids cb st))
          = filter is_cell_save (trace st) @ [transport_map_event L args cb]"
    by (simp add: cb save_map_fields summarize_fields lp transport_map_event_def)
  show "filter is_cluster_save (trace (callback L args g ids cb st))
          = filter is_cluster_save (trace st)
            @ (case clusters args of None \<Rightarrow> []
               | Some _ \<Rightarrow> if cluster_details args then [cluster_map_event L args g ids cb]
                           else [])"
    by (simp add: cb save_map_fields summarize_fields lp cluster_map_event_def
        split: option.splits)
qed

lemma compute_fields:
  assumes "raised st = None"
    and "py_is (solver args) floating_epsilon_literal \<longrightarrow> params_writer st \<noteq> None"
    and "all_shaped cbs"
  shows "raised (compute_transport_maps (callback L args g ids) cbs st) = None
    \<and> cluster_transport_maps (compute_transport_maps (callback L args g ids) cbs st) =
          cluster_transport_maps st
            @ (case clusters args of None \<Rightarrow> []
               | Some _ \<Rightarrow> map (\<lambda>cb. wot_transport_map_by_cluster L (transport_frame cb) g ids) cbs)
    \<and> column_cell_ids_by_time (compute_transport_maps (callback L args g ids) cbs st) =
          column_cell_ids_by_time st
            @ (case clusters args of None \<Rightarrow> [] | Some _ \<Rightarrow> map p1 cbs)
    \<and> all_cell_ids (compute_transport_maps (callback L args g ids) cbs st) =
          all_cell_ids st
            \<union> (case clusters args of None \<Rightarrow> {}
               | Some _ \<Rightarrow> (\<Union>cb \<in> set cbs. set (p1 cb) \<union> set (p0 cb)))
    \<and> filter is_cell_save (trace (compute_transport_maps (callback L args g ids) cbs st))
          = filter is_cell_save (trace st) @ map (transport_map_event L args) cbs
    \<and> filter is_cluster_save (trace (compute_transport_maps (callback L args g ids) cbs st))
          = filter is_cluster_save (trace st)
            @ (case clusters args of None \<Rightarrow> []
               | Some _ \<Rightarrow> if cluster_details args
                           then map (cluster_map_event L args g ids) cbs else [])"
  using assms
proof (induction cbs arbitrary: st)
  case Nil
  then show ?case by (simp split: option.splits)
next
  case (Cons cb cbs)
  from Cons.prems(3) have sh: "frame_shaped (transport_frame cb)" and rest: "all_shaped cbs"
    by (simp_all add: all_shaped_def)
  note f = callback_fields [OF Cons.prems(1) Cons.prems(2) sh,
      where L = L and g = g and ids = ids]
  note ih = Cons.IH [OF f(1) f(2) rest]
  have step: "compute_transport_maps (callback L args g ids) (cb # cbs) st =
     compute_transport_maps (callback L args g ids) cbs (callback L args g ids cb st)"
    using f(1) by (simp add: Let_def)
  let ?c = "callback L args g ids cb st"
  let ?r = "compute_transport_maps (callback L args g ids) cbs ?c"
  from ih have r1: "raised ?r = None" by blast
  from ih have r2: "cluster_transport_maps ?r =
          cluster_transport_maps ?c
            @ (case clusters args of None \<Rightarrow> []
               | Some _ \<Rightarrow> map (\<lambda>cb. wot_transport_map_by_cluster L (transport_frame cb) g ids) cbs)"
    by blast
  from ih have r3: "column_cell_ids_by_time ?r =
          column_cell_ids_by_time ?c
            @ (case clusters args of None \<Rightarrow> [] | Some _ \<Rightarrow> map p1 cbs)"
    by blast
  from ih have r4: "all_cell_ids ?r =
          all_cell_ids ?c
            \<union> (case clusters args of None \<Rightarrow> {}
               | Some _ \<Rightarrow> (\<Union>cb \<in> set cbs. set (p1 cb) \<union> set (p0 cb)))"
    by blast
  from ih have r5: "filter is_cell_save (trace ?r)
          = filter is_cell_save (trace ?c) @ map (transport_map_event L args) cbs"
    by blast
  from ih have r6: "filter is_cluster_save (trace ?r)
          = filter is_cluster_save (trace ?c)
            @ (case clusters args of None \<Rightarrow> []
               | Some _ \<Rightarrow> if cluster_details args
                           then map (cluster_map_event L args g ids) cbs else [])"
    by blast
  have g2: "cluster_transport_maps ?r =
          cluster_transport_maps st
            @ (case clusters args of None \<Rightarrow> []
               | Some _ \<Rightarrow> map (\<lambda>cb. wot_transport_map_by_cluster L (transport_frame cb) g ids)
                             (cb # cbs))"
    by (simp add: r2 f(3) split: option.splits)
  have g3: "column_cell_ids_by_time ?r =
          column_cell_ids_by_time st
            @ (case clusters args of None \<Rightarrow> [] | Some _ \<Rightarrow> map p1 (cb # cbs))"
    by (simp add: r3 f(4) split: option.splits)
  have g4: "all_cell_ids ?r =
          all_cell_ids st
            \<union> (case clusters args of None \<Rightarrow> {}
               | Some _ \<Rightarrow> (\<Union>cb \<in> set (cb # cbs). set (p1 cb) \<union> set (p0 cb)))"
    by (simp add: r4 f(5) Un_assoc split: option.splits)
  have g5: "filter is_cell_save (trace ?r)
          = filter is_cell_save (trace st) @ map (transport_map_event L args) (cb # cbs)"
    by (simp add: r5 f(6))
  have g6: "filter is_cluster_save (trace ?r)
          = filter is_cluster_save (trace st)
            @ (case clusters args of None \<Rightarrow> []
               | Some _ \<Rightarrow> if cluster_details args
                           then map (cluster_map_event L args g ids) (cb # cbs) else [])"
    by (simp add: r6 f(7) split: option.splits)
  show ?case
    unfolding step using r1 g2 g3 g4 g5 g6 by blast
qed

lemma open_params_fields:
  "raised (open_params args (initial_state fs)) = None"
  "py_is (solver args) floating_epsilon_literal \<longrightarrow>
     params_writer (open_params args (initial_state fs)) \<noteq> None"
  "cluster_transport_maps (open_params args (initial_state fs)) = []"
  "column_cell_ids_by_time (open_params args (initial_state fs)) = []"
  "all_cell_ids (open_params args (initial_state fs)) = {}"
  "filter is_cell_save (trace (open_params args (initial_state fs))) = []"
  "filter is_cluster_save (trace (open_params args (initial_state fs))) = []"
  by (simp_all add: open_params_def initial_state_def writer_write_def open_w_def)

lemma save_summary_fields:
  assumes "raised st = None" and "clusters args = Some path"
  shows "raised (save_summary L args g ids st) = None"
    and "files (save_summary L args g ids st) (cluster_summary_path args) =
          Some (Csv (ClusterTable
                      (wot_transport_maps_by_time L (cluster_transport_maps st)
                         (wot_get_weights L (all_cell_ids st) (column_cell_ids_by_time st) g ids)))
                  ''id'' [CHR 0x09] (compress args) QuoteMinimal)"
    and "filter is_cell_save (trace (save_summary L args g ids st))
          = filter is_cell_save (trace st)"
    and "filter is_cluster_save (trace (save_summary L args g ids st))
          = filter is_cluster_save (trace st)
            @ [Saved (cluster_summary_path args)
                 (Csv (ClusterTable
                         (wot_transport_maps_by_time L (cluster_transport_maps st)
                            (wot_get_weights L (all_cell_ids st) (column_cell_ids_by_time st)
                               g ids)))
                    ''id'' [CHR 0x09] (compress args) QuoteMinimal)]"
  using assms by (auto simp: save_summary_def Let_def to_csv_def print_if_def)

lemma main_clusters:
  assumes "clusters args = Some path" and "cluster_tables inp path = Some tbl"
  shows "main L args inp fs =
     save_summary L args (cluster_groups inp tbl) (map fst (cluster_groups inp tbl))
       (compute_transport_maps
          (callback L args (cluster_groups inp tbl) (map fst (cluster_groups inp tbl)))
          (solved inp)
          ((open_params args (initial_state fs))\<lparr>total_cluster_size :=
              Some (wot_get_column_weights L
                      (map fst (align_right tbl (gene_expression_index inp)))
                      (cluster_groups inp tbl) (map fst (cluster_groups inp tbl)))\<rparr>))"
  using assms by (simp add: main_def Let_def cluster_groups_def)

subsection \<open>A result that does not fit its labels\<close>

lemma make_transport_map_ill_shaped:
  "\<not> frame_shaped (transport_frame cb) \<Longrightarrow>
   make_transport_map cb = Inl (ValueError ''Shape of passed values does not match the indices'')"
  by (simp add: make_transport_map_def pd_DataFrame_def transport_frame_def Let_def)

text \<open>
  X2.  Line 47: when the matrix of a result does not have the shape of the pair's cell
  ids, the callback ends with \<^verbatim>\<open>ValueError\<close> after the audit row and before any
  table is saved, and the helper stops at that pair.
\<close>

theorem callback_rejects_ill_shaped:
  "raised st = None
   \<and> (py_is (solver args) floating_epsilon_literal \<longrightarrow> params_writer st \<noteq> None)
   \<and> \<not> frame_shaped (transport_frame cb)
   \<longrightarrow> raised (callback L args g ids cb st)
         = Some (ValueError ''Shape of passed values does not match the indices'')
       \<and> filter is_cell_save (trace (callback L args g ids cb st)) = filter is_cell_save (trace st)
       \<and> filter is_cluster_save (trace (callback L args g ids cb st))
           = filter is_cluster_save (trace st)
       \<and> compute_transport_maps (callback L args g ids) (cb # cbs) st
           = callback L args g ids cb st"
proof
  assume a: "raised st = None
   \<and> (py_is (solver args) floating_epsilon_literal \<longrightarrow> params_writer st \<noteq> None)
   \<and> \<not> frame_shaped (transport_frame cb)"
  then have r: "raised st = None"
    and w: "py_is (solver args) floating_epsilon_literal \<longrightarrow> params_writer st \<noteq> None"
    and n: "\<not> frame_shaped (transport_frame cb)" by simp_all
  note lp = log_params_fields [OF r w, where L = L and cb = cb]
  have cb: "callback L args g ids cb st =
      (log_params L args cb st)\<lparr>raised :=
         Some (ValueError ''Shape of passed values does not match the indices'')\<rparr>"
    using lp(1) make_transport_map_ill_shaped [OF n] by (simp add: callback_def Let_def)
  show "raised (callback L args g ids cb st)
         = Some (ValueError ''Shape of passed values does not match the indices'')
       \<and> filter is_cell_save (trace (callback L args g ids cb st)) = filter is_cell_save (trace st)
       \<and> filter is_cluster_save (trace (callback L args g ids cb st))
           = filter is_cluster_save (trace st)
       \<and> compute_transport_maps (callback L args g ids) (cb # cbs) st
           = callback L args g ids cb st"
    using lp(6) lp(7) by (simp add: cb Let_def)
qed

theorem callback_rejects_ill_shaped_witness:
  "raised (initial_state Map.empty :: (string, int) state) = None
   \<and> \<not> py_is (solver (run_args argv_fixed None False)) floating_epsilon_literal
   \<and> \<not> frame_shaped (transport_frame ragged_pair)
   \<and> raised (callback (plain_library :: (string, int) library) (run_args argv_fixed None False)
        [] [] ragged_pair (initial_state Map.empty))
       = Some (ValueError ''Shape of passed values does not match the indices'')"
proof -
  have h1: "raised (initial_state Map.empty :: (string, int) state) = None"
    by (simp add: initial_state_def)
  have h2: "\<not> py_is (solver (run_args argv_fixed None False)) floating_epsilon_literal"
    by (simp add: run_args_def argv_fixed_def floating_epsilon_literal_def py_is_def)
  have h3: "\<not> frame_shaped (transport_frame ragged_pair)"
    by (simp add: frame_shaped_def transport_frame_def ragged_pair_def)
  from callback_rejects_ill_shaped [of "initial_state Map.empty :: (string, int) state"
      "run_args argv_fixed None False" ragged_pair plain_library "[]" "[]" "[]"] h1 h2 h3
  show ?thesis by blast
qed

subsection \<open>The right join and the groups, as sets\<close>

lemma case_list_if:
  "(case xs of [] \<Rightarrow> a | r # rs \<Rightarrow> g (r # rs)) = (if xs = [] then a else g xs)"
  by (cases xs) simp_all

lemma align_right_row:
  "set (case filter (\<lambda>r. fst r = i) tbl of
          [] \<Rightarrow> [(i, None)]
        | r # rs \<Rightarrow> map (\<lambda>m. (i, Some (snd m))) (r # rs))
     = (if i \<in> fst ` set tbl then {(i, Some k) | k. (i, k) \<in> set tbl} else {(i, None)})"
proof (cases "i \<in> fst ` set tbl")
  case True
  then have ne: "filter (\<lambda>r. fst r = i) tbl \<noteq> []"
    by (auto simp: filter_empty_conv)
  have "(\<lambda>m. (i, Some (snd m))) ` {m \<in> set tbl. fst m = i} = {(i, Some k) | k. (i, k) \<in> set tbl}"
    by force
  with True ne show ?thesis by (simp add: case_list_if)
next
  case False
  then have "filter (\<lambda>r. fst r = i) tbl = []"
    by (auto simp: filter_empty_conv)
  with False show ?thesis by simp
qed

lemma set_align_right:
  "set (align_right tbl idx) =
     {(c, Some k) | c k. c \<in> set idx \<and> (c, k) \<in> set tbl}
     \<union> {(c, None) | c. c \<in> set idx \<and> c \<notin> fst ` set tbl}"
proof -
  have "set (align_right tbl idx) =
      (\<Union>i \<in> set idx. if i \<in> fst ` set tbl then {(i, Some k) | k. (i, k) \<in> set tbl}
                       else {(i, None)})"
    unfolding align_right_def set_concat set_map image_image align_right_row ..
  also have "\<dots> = {(c, Some k) | c k. c \<in> set idx \<and> (c, k) \<in> set tbl}
     \<union> {(c, None) | c. c \<in> set idx \<and> c \<notin> fst ` set tbl}"
  proof (intro set_eqI iffI)
    fix x
    assume "x \<in> (\<Union>i \<in> set idx. if i \<in> fst ` set tbl
                     then {(i, Some k) | k. (i, k) \<in> set tbl} else {(i, None)})"
    then obtain i where i: "i \<in> set idx"
      and x: "x \<in> (if i \<in> fst ` set tbl then {(i, Some k) | k. (i, k) \<in> set tbl} else {(i, None)})"
      by blast
    show "x \<in> {(c, Some k) | c k. c \<in> set idx \<and> (c, k) \<in> set tbl}
     \<union> {(c, None) | c. c \<in> set idx \<and> c \<notin> fst ` set tbl}"
    proof (cases "i \<in> fst ` set tbl")
      case True
      with x i show ?thesis by auto
    next
      case False
      with x i show ?thesis by auto
    qed
  next
    fix x
    assume "x \<in> {(c, Some k) | c k. c \<in> set idx \<and> (c, k) \<in> set tbl}
     \<union> {(c, None) | c. c \<in> set idx \<and> c \<notin> fst ` set tbl}"
    then consider (a) c k where "x = (c, Some k)" "c \<in> set idx" "(c, k) \<in> set tbl"
      | (b) c where "x = (c, None)" "c \<in> set idx" "c \<notin> fst ` set tbl"
      by blast
    then show "x \<in> (\<Union>i \<in> set idx. if i \<in> fst ` set tbl
                     then {(i, Some k) | k. (i, k) \<in> set tbl} else {(i, None)})"
    proof cases
      case a
      then have "c \<in> fst ` set tbl" by force
      with a show ?thesis by auto
    next
      case b
      then show ?thesis by auto
    qed
  qed
  finally show ?thesis .
qed

lemma groupby_ids:
  "map fst (groupby_cluster t) = sort (remdups (List.map_filter snd t))"
  by (simp add: groupby_cluster_def comp_def)

lemma set_map_filter_snd:
  "set (List.map_filter snd t) = {k. \<exists>c. (c, Some k) \<in> set t}"
proof (induction t)
  case Nil
  then show ?case by (simp add: List.map_filter_simps)
next
  case (Cons r t)
  obtain c v where r: "r = (c, v)" by (cases r)
  show ?case
  proof (cases v)
    case None
    with r Cons show ?thesis by (auto simp: List.map_filter_simps)
  next
    case (Some k)
    with r Cons show ?thesis by (auto simp: List.map_filter_simps)
  qed
qed

lemma groupby_members:
  assumes "g \<in> set (groupby_cluster t)"
  shows "set (snd g) = {c. (c, Some (fst g)) \<in> set t}"
proof -
  from assms obtain k where g: "g = (k, map fst (filter (\<lambda>r. snd r = Some k) t))"
    by (auto simp: groupby_cluster_def)
  have "set (map fst (filter (\<lambda>r. snd r = Some k) t)) = {c. (c, Some k) \<in> set t}"
  proof (intro set_eqI iffI)
    fix c assume "c \<in> set (map fst (filter (\<lambda>r. snd r = Some k) t))"
    then obtain r where "r \<in> set t" "snd r = Some k" "fst r = c" by auto
    then have "(c, Some k) \<in> set t" by (metis prod.collapse)
    then show "c \<in> {c. (c, Some k) \<in> set t}" by simp
  next
    fix c assume "c \<in> {c. (c, Some k) \<in> set t}"
    then have "(c, Some k) \<in> set (filter (\<lambda>r. snd r = Some k) t)" by simp
    then have "fst (c, Some k) \<in> fst ` set (filter (\<lambda>r. snd r = Some k) t)" by (rule imageI)
    then show "c \<in> set (map fst (filter (\<lambda>r. snd r = Some k) t))" by simp
  qed
  with g show ?thesis by simp
qed

subsection \<open>The audit file when the mode test holds\<close>

lemma callback_writer:
  assumes "py_is (solver args) floating_epsilon_literal"
    and "raised st = None" and "params_writer st = Some (path, buf)"
    and "frame_shaped (transport_frame cb)"
  shows "raised (callback L args g ids cb st) = None"
    and "params_writer (callback L args g ids cb st) = Some (path, buf @ params_row L cb)"
proof -
  let ?s1 = "log_params L args cb st"
  have l1: "raised ?s1 = None" and l2: "params_writer ?s1 = Some (path, buf @ params_row L cb)"
    using assms by (simp_all add: log_params_def writer_write_def)
  have cb: "callback L args g ids cb st =
      save_transport_map L args cb (transport_frame cb)
        (summarize_by_cluster L args g ids cb (transport_frame cb) ?s1)"
    using l1 make_transport_map_shaped [OF assms(4)] by (simp add: callback_def Let_def)
  show "raised (callback L args g ids cb st) = None"
    by (simp add: cb save_map_fields summarize_fields l1)
  show "params_writer (callback L args g ids cb st) = Some (path, buf @ params_row L cb)"
    by (simp add: cb save_map_fields summarize_fields l2)
qed

lemma compute_writer:
  assumes "py_is (solver args) floating_epsilon_literal"
    and "raised st = None" and "params_writer st = Some (path, buf)"
    and "all_shaped cbs"
  shows "params_writer (compute_transport_maps (callback L args g ids) cbs st)
       = Some (path, buf @ concat (map (params_row L) cbs))"
  using assms(2) assms(3) assms(4)
proof (induction cbs arbitrary: st buf)
  case Nil
  then show ?case by simp
next
  case (Cons cb cbs)
  from Cons.prems(3) have sh: "frame_shaped (transport_frame cb)" and rest: "all_shaped cbs"
    by (simp_all add: all_shaped_def)
  note c = callback_writer [OF assms(1) Cons.prems(1) Cons.prems(2) sh,
      where L = L and g = g and ids = ids]
  from Cons.IH [OF c rest] c(1) show ?case by (simp add: Let_def)
qed

lemma callback_no_writer:
  assumes "\<not> py_is (solver args) floating_epsilon_literal"
  shows "params_writer (callback L args g ids cb st) = params_writer st"
  using assms
  by (simp add: callback_def Let_def log_params_def save_map_fields summarize_fields
      split: sum.splits)

lemma compute_no_writer:
  assumes "\<not> py_is (solver args) floating_epsilon_literal"
  shows "params_writer (compute_transport_maps (callback L args g ids) cbs st) = params_writer st"
proof (induction cbs arbitrary: st)
  case Nil
  then show ?case by simp
next
  case (Cons cb cbs)
  show ?case
    using Cons.IH [of "callback L args g ids cb st"] callback_no_writer [OF assms, of L g ids cb st]
    by (simp add: Let_def)
qed

lemma save_summary_writer:
  "params_writer (save_summary L args g ids st) = params_writer st"
  by (simp add: save_summary_def Let_def to_csv_def print_if_def split: option.splits)

text \<open>
  X1.  What lines 15 to 19 and 42 to 46 do: when \<open>args.solver\<close> is the literal's own
  object (no clusters file is given and every result has the shape of its labels), the
  audit file is opened at \<open>prefix_params.txt\<close> and receives the header and one row per
  solved pair, in order; when the identity test fails, no audit file is ever opened.
\<close>

theorem audit_rows_by_identity:
  "(py_is (solver args) floating_epsilon_literal \<and> clusters args = None
      \<and> all_shaped (solved inp) \<longrightarrow>
      params_writer (main L args inp fs)
        = Some (params_path args, params_header @ concat (map (params_row L) (solved inp))))
   \<and> (\<not> py_is (solver args) floating_epsilon_literal \<longrightarrow>
        params_writer (main L args inp fs) = None)"
proof (intro conjI impI)
  assume a: "py_is (solver args) floating_epsilon_literal \<and> clusters args = None
      \<and> all_shaped (solved inp)"
  let ?s0 = "open_params args (initial_state fs)"
  have r: "raised ?s0 = None" by (rule open_params_fields)
  have w: "params_writer ?s0 = Some (params_path args, [] @ params_header)"
    using a by (simp add: open_params_def initial_state_def writer_write_def open_w_def)
  from a have m: "main L args inp fs =
      save_summary L args [] [] (compute_transport_maps (callback L args [] []) (solved inp) ?s0)"
    by (simp add: main_def Let_def)
  from a have w1: "py_is (solver args) floating_epsilon_literal"
    and sh: "all_shaped (solved inp)" by simp_all
  show "params_writer (main L args inp fs)
        = Some (params_path args, params_header @ concat (map (params_row L) (solved inp)))"
    unfolding m save_summary_writer
    using compute_writer [OF w1 r w sh, where L = L and g = "[]" and ids = "[]"]
    by simp
next
  assume n: "\<not> py_is (solver args) floating_epsilon_literal"
  let ?s0 = "open_params args (initial_state fs)"
  have w: "params_writer ?s0 = None"
    using n by (simp add: open_params_def initial_state_def)
  show "params_writer (main L args inp fs) = None"
    unfolding main_def Let_def
    using w by (simp add: save_summary_writer compute_no_writer [OF n] split: option.splits)
qed

theorem audit_rows_by_identity_witness:
  "py_is (solver (run_args floating_epsilon_literal None False)) floating_epsilon_literal
   \<and> clusters (run_args floating_epsilon_literal None False) = None
   \<and> all_shaped (solved (run_inputs ([] :: (string \<times> int) list)))
   \<and> params_writer (main plain_library (run_args floating_epsilon_literal None False)
        (run_inputs ([] :: (string \<times> int) list)) Map.empty)
        = Some (params_path (run_args floating_epsilon_literal None False),
                params_header @ concat (map (params_row (plain_library :: (string, int) library))
                   (solved (run_inputs ([] :: (string \<times> int) list)))))"
proof -
  have h: "py_is (solver (run_args floating_epsilon_literal None False)) floating_epsilon_literal
      \<and> clusters (run_args floating_epsilon_literal None False) = None
      \<and> all_shaped (solved (run_inputs ([] :: (string \<times> int) list)))"
    by (simp add: run_args_def py_is_def run_inputs_def all_shaped_def frame_shaped_def
        transport_frame_def one_pair_def)
  from audit_rows_by_identity [of "run_args floating_epsilon_literal None False"
      "run_inputs ([] :: (string \<times> int) list)" plain_library Map.empty] h
  show ?thesis by blast
qed

subsection \<open>A clusters file is never rejected for its cell ids\<close>

text \<open>
  C1, as claimed: a cluster table whose cell ids cannot be aligned with those of the
  expression table ends the run with an error before any pair is solved.  The table
  below names the one cell \<open>x\<close>, the expression table the cells \<open>a\<close> and \<open>b\<close>: the run
  raises nothing and writes the transport map of the pair.
\<close>

theorem misaligned_clusters_are_solved:
  "set (map fst [(''x'', ''k'')]) \<inter> set (gene_expression_index (run_inputs [(''x'', ''k'')])) = {}
   \<and> raised (main plain_library (run_args argv_fixed (Some ''c.txt'') False)
        (run_inputs [(''x'', ''k'')]) Map.empty) = None
   \<and> files (main plain_library (run_args argv_fixed (Some ''c.txt'') False)
        (run_inputs [(''x'', ''k'')]) Map.empty) ''out_0_1.txt''
      = Some (Csv (CellTable \<lparr>df_index = [''a''], df_columns = [''b''], df_data = [[1]]\<rparr>)
                ''id'' [CHR 0x09] False QuoteNone)"
  by (simp add: main_def run_args_def run_inputs_def one_pair_def plain_library_def
      argv_fixed_def floating_epsilon_literal_def py_is_def open_params_def
      initial_state_def callback_def log_params_def summarize_by_cluster_def
      save_transport_map_def save_summary_def to_csv_def print_if_def
      transport_map_path_def cluster_map_path_def cluster_summary_path_def gz_suffix_def
      make_transport_map_def pd_DataFrame_def frame_shaped_def Let_def)

text \<open>
  C1, amended.  With a clusters file given, the script checks nothing about the cell ids
  of its table.  A file that cannot be read ends the run before any pair is handled: no
  transport map is saved.  A file that is read never ends it, whatever its table holds:
  when every result has the shape of its labels, nothing is raised and the transport
  maps saved are exactly those of the solved pairs, one per pair and in their order,
  each with the pair's cell ids and matrix, under the pair's path, tab-separated and
  unquoted.  The right join keeps, for each cell id of the expression table, the
  clusters the table gives it, or one row with a missing cluster when the table has
  none for it; rows of the table for other cells are dropped.  The members of every
  group are the cells of the expression table that the table assigns to the group's
  cluster, so a cell without an assignment is a member of no group.
\<close>

theorem clusters_never_rejected:
  assumes "clusters args = Some path"
  shows "(cluster_tables inp path = None \<longrightarrow>
            main L args inp fs =
              (open_params args (initial_state fs))\<lparr>raised := Some (FileNotFoundError path)\<rparr>
            \<and> filter is_cell_save (trace (main L args inp fs)) = [])
       \<and> (cluster_tables inp path = Some tbl \<and> all_shaped (solved inp) \<longrightarrow>
            raised (main L args inp fs) = None
            \<and> filter is_cell_save (trace (main L args inp fs))
                = map (transport_map_event L args) (solved inp))
       \<and> set (align_right tbl idx) =
            {(c, Some k) | c k. c \<in> set idx \<and> (c, k) \<in> set tbl}
            \<union> {(c, None) | c. c \<in> set idx \<and> c \<notin> fst ` set tbl}
       \<and> (\<forall>g \<in> set (groupby_cluster (align_right tbl idx)).
             set (snd g) = {c \<in> set idx. (c, fst g) \<in> set tbl})"
proof (intro conjI impI)
  assume n: "cluster_tables inp path = None"
  with assms show m: "main L args inp fs =
      (open_params args (initial_state fs))\<lparr>raised := Some (FileNotFoundError path)\<rparr>"
    by (simp add: main_def Let_def)
  show "filter is_cell_save (trace (main L args inp fs)) = []"
    unfolding m using open_params_fields(6) [of args fs] by simp
next
  assume t: "cluster_tables inp path = Some tbl \<and> all_shaped (solved inp)"
  let ?g = "cluster_groups inp tbl"
  let ?ids = "map fst ?g"
  let ?s0 = "(open_params args (initial_state fs))\<lparr>total_cluster_size :=
              Some (wot_get_column_weights L
                      (map fst (align_right tbl (gene_expression_index inp))) ?g ?ids)\<rparr>"
  let ?r = "compute_transport_maps (callback L args ?g ?ids) (solved inp) ?s0"
  from t have tb: "cluster_tables inp path = Some tbl" and sh: "all_shaped (solved inp)"
    by simp_all
  have m: "main L args inp fs = save_summary L args ?g ?ids ?r"
    using main_clusters [OF assms tb] .
  have s0: "raised ?s0 = None"
    "py_is (solver args) floating_epsilon_literal \<longrightarrow> params_writer ?s0 \<noteq> None"
    using open_params_fields [of args fs] by simp_all
  have tr0: "filter is_cell_save (trace ?s0) = []"
    using open_params_fields(6) [of args fs] by simp
  note c = compute_fields [OF s0 sh, where L = L and g = ?g and ids = ?ids]
  from c have r1: "raised ?r = None" by blast
  from c tr0 have r5: "filter is_cell_save (trace ?r) = map (transport_map_event L args) (solved inp)"
    by simp
  note ss = save_summary_fields [OF r1 assms, where L = L and g = ?g and ids = ?ids]
  show "raised (main L args inp fs) = None" unfolding m by (rule ss(1))
  show "filter is_cell_save (trace (main L args inp fs))
          = map (transport_map_event L args) (solved inp)"
    unfolding m ss(3) by (rule r5)
next
  show "set (align_right tbl idx) =
            {(c, Some k) | c k. c \<in> set idx \<and> (c, k) \<in> set tbl}
            \<union> {(c, None) | c. c \<in> set idx \<and> c \<notin> fst ` set tbl}"
    by (rule set_align_right)
next
  show "\<forall>g \<in> set (groupby_cluster (align_right tbl idx)).
             set (snd g) = {c \<in> set idx. (c, fst g) \<in> set tbl}"
  proof
    fix g assume "g \<in> set (groupby_cluster (align_right tbl idx))"
    then have "set (snd g) = {c. (c, Some (fst g)) \<in> set (align_right tbl idx)}"
      by (rule groupby_members)
    also have "\<dots> = {c \<in> set idx. (c, fst g) \<in> set tbl}"
      unfolding set_align_right by auto
    finally show "set (snd g) = {c \<in> set idx. (c, fst g) \<in> set tbl}" .
  qed
qed

theorem clusters_never_rejected_witness:
  "clusters (run_args argv_fixed (Some ''c.txt'') True) = Some ''c.txt''
   \<and> cluster_tables (run_inputs [(''b'', 7::int), (''x'', 3)]) ''c.txt''
       = Some [(''b'', 7), (''x'', 3)]
   \<and> all_shaped (solved (run_inputs [(''b'', 7::int), (''x'', 3)]))
   \<and> raised (main plain_library (run_args argv_fixed (Some ''c.txt'') True)
        (run_inputs [(''b'', 7::int), (''x'', 3)]) Map.empty) = None
   \<and> filter is_cell_save (trace (main plain_library (run_args argv_fixed (Some ''c.txt'') True)
        (run_inputs [(''b'', 7::int), (''x'', 3)]) Map.empty))
       = [transport_map_event plain_library (run_args argv_fixed (Some ''c.txt'') True) one_pair]
   \<and> set (align_right [(''b'', 7::int), (''x'', 3)] [''a'', ''b''])
       = {(''a'', None), (''b'', Some 7)}
   \<and> groupby_cluster (align_right [(''b'', 7::int), (''x'', 3)] [''a'', ''b'']) = [(7, [''b''])]"
proof -
  let ?tbl = "[(''b'', 7::int), (''x'', 3)]"
  have h1: "clusters (run_args argv_fixed (Some ''c.txt'') True) = Some ''c.txt''"
    by (simp add: run_args_def)
  have h2: "cluster_tables (run_inputs ?tbl) ''c.txt'' = Some ?tbl"
    by (simp add: run_inputs_def)
  have h3: "all_shaped (solved (run_inputs ?tbl))"
    by (simp add: run_inputs_def all_shaped_def frame_shaped_def transport_frame_def one_pair_def)
  have h4: "map (transport_map_event plain_library (run_args argv_fixed (Some ''c.txt'') True))
              (solved (run_inputs ?tbl))
          = [transport_map_event plain_library (run_args argv_fixed (Some ''c.txt'') True) one_pair]"
    by (simp add: run_inputs_def)
  have h5: "{(c, Some k) | c k. c \<in> set [''a'', ''b''] \<and> (c, k) \<in> set ?tbl}
            \<union> {(c, None) | c. c \<in> set [''a'', ''b''] \<and> c \<notin> fst ` set ?tbl}
          = {(''a'', None), (''b'', Some 7)}"
    by auto
  have h6: "groupby_cluster (align_right ?tbl [''a'', ''b'']) = [(7, [''b''])]"
    by (simp add: groupby_cluster_def align_right_def List.map_filter_simps)
  from clusters_never_rejected [OF h1, of "run_inputs ?tbl" plain_library Map.empty ?tbl
      "[''a'', ''b'']"] h2 h3
  have "raised (main plain_library (run_args argv_fixed (Some ''c.txt'') True)
        (run_inputs ?tbl) Map.empty) = None"
    and "filter is_cell_save (trace (main plain_library (run_args argv_fixed (Some ''c.txt'') True)
        (run_inputs ?tbl) Map.empty))
       = map (transport_map_event plain_library (run_args argv_fixed (Some ''c.txt'') True))
           (solved (run_inputs ?tbl))"
    and "set (align_right ?tbl [''a'', ''b''])
       = {(c, Some k) | c k. c \<in> set [''a'', ''b''] \<and> (c, k) \<in> set ?tbl}
            \<union> {(c, None) | c. c \<in> set [''a'', ''b''] \<and> c \<notin> fst ` set ?tbl}"
    by blast+
  with h1 h2 h3 h4 h5 h6 show ?thesis by simp
qed

subsection \<open>The table files of a run with clusters\<close>

text \<open>
  C2, as claimed: with a clusters file the run writes a cluster-level file for every
  pair.  Without the option \<open>cluster_details\<close> the run below writes the transport map
  of its pair and the combined summary, and no cluster-level file of the pair.
\<close>

theorem no_cluster_file_without_details:
  "clusters (run_args argv_fixed (Some ''c.txt'') False) = Some ''c.txt''
   \<and> dom (files (main plain_library (run_args argv_fixed (Some ''c.txt'') False)
             (run_inputs [(''a'', ''k''), (''b'', ''k'')]) Map.empty))
      = {''out_0_1.txt'', ''out_cluster_summary.txt''}"
  by (simp add: main_def run_args_def run_inputs_def one_pair_def plain_library_def
      argv_fixed_def floating_epsilon_literal_def py_is_def open_params_def
      initial_state_def callback_def log_params_def summarize_by_cluster_def
      save_transport_map_def save_summary_def to_csv_def print_if_def
      transport_map_path_def cluster_map_path_def cluster_summary_path_def gz_suffix_def
      make_transport_map_def pd_DataFrame_def frame_shaped_def Let_def insert_commute)

text \<open>
  C2, amended.  With a clusters file that is read and results that have the shape of
  their labels, the cluster-level tables the run saves are exactly these, in this order:
  when the option \<open>cluster_details\<close> is set, one per solved pair, holding the pair's
  transport map summarised by \<open>transport_map_by_cluster\<close> over the groups and the
  cluster ids of the table, under the pair's cluster path, tab-separated with the index
  column \<open>id\<close>; when it is not set, none; and then, in both cases, the combined summary,
  the \<open>transport_maps_by_time\<close> of the cluster maps of all pairs in their order with the
  weights \<open>get_weights\<close> gives for the cells of all pairs and the column cells of each.
  The summary is the content of the summary file when the run ends.  The cluster ids
  are the clusters the table gives to cells of the expression table, each once, in
  ascending order of their values.
\<close>

theorem cluster_outputs:
  assumes "clusters args = Some path" and "cluster_tables inp path = Some tbl"
    and "all_shaped (solved inp)"
  shows "filter is_cluster_save (trace (main L args inp fs))
           = (if cluster_details args
              then map (cluster_map_event L args (cluster_groups inp tbl)
                          (map fst (cluster_groups inp tbl))) (solved inp)
              else [])
             @ [summary_event L args (cluster_groups inp tbl)
                  (map fst (cluster_groups inp tbl)) (solved inp)]
       \<and> files (main L args inp fs) (cluster_summary_path args)
           = Some (summary_file L args (cluster_groups inp tbl)
                     (map fst (cluster_groups inp tbl)) (solved inp))
       \<and> sorted (map fst (cluster_groups inp tbl))
       \<and> distinct (map fst (cluster_groups inp tbl))
       \<and> set (map fst (cluster_groups inp tbl))
           = {k. \<exists>c \<in> set (gene_expression_index inp). (c, k) \<in> set tbl}"
proof -
  let ?g = "cluster_groups inp tbl"
  let ?ids = "map fst ?g"
  let ?s0 = "(open_params args (initial_state fs))\<lparr>total_cluster_size :=
              Some (wot_get_column_weights L
                      (map fst (align_right tbl (gene_expression_index inp))) ?g ?ids)\<rparr>"
  let ?r = "compute_transport_maps (callback L args ?g ?ids) (solved inp) ?s0"
  have m: "main L args inp fs = save_summary L args ?g ?ids ?r"
    using main_clusters [OF assms(1) assms(2)] .
  have s0: "raised ?s0 = None"
    "py_is (solver args) floating_epsilon_literal \<longrightarrow> params_writer ?s0 \<noteq> None"
    using open_params_fields [of args fs] by simp_all
  have acc0: "cluster_transport_maps ?s0 = []" "column_cell_ids_by_time ?s0 = []"
    "all_cell_ids ?s0 = {}" "filter is_cluster_save (trace ?s0) = []"
    using open_params_fields [of args fs] by simp_all
  note c = compute_fields [OF s0 assms(3), where L = L and g = ?g and ids = ?ids]
  from c have r1: "raised ?r = None" by blast
  from c acc0 assms(1) have r2: "cluster_transport_maps ?r =
      map (\<lambda>cb. wot_transport_map_by_cluster L (transport_frame cb) ?g ?ids) (solved inp)"
    by simp
  from c acc0 assms(1) have r3: "column_cell_ids_by_time ?r = map p1 (solved inp)" by simp
  from c acc0 assms(1) have r4: "all_cell_ids ?r
      = (\<Union>cb \<in> set (solved inp). set (p1 cb) \<union> set (p0 cb))"
    by simp
  from c acc0 assms(1) have r6: "filter is_cluster_save (trace ?r)
      = (if cluster_details args then map (cluster_map_event L args ?g ?ids) (solved inp) else [])"
    by simp
  note ss = save_summary_fields [OF r1 assms(1), where L = L and g = ?g and ids = ?ids]
  have a: "filter is_cluster_save (trace (main L args inp fs))
           = (if cluster_details args then map (cluster_map_event L args ?g ?ids) (solved inp)
              else [])
             @ [summary_event L args ?g ?ids (solved inp)]"
    unfolding m ss(4) r6 summary_event_def summary_file_def r2 r3 r4 ..
  have b: "files (main L args inp fs) (cluster_summary_path args)
           = Some (summary_file L args ?g ?ids (solved inp))"
    unfolding m ss(2) summary_file_def r2 r3 r4 ..
  have ids: "?ids = sort (remdups (List.map_filter snd
                       (align_right tbl (gene_expression_index inp))))"
    by (simp add: cluster_groups_def groupby_ids)
  have d: "sorted ?ids" "distinct ?ids" unfolding ids by simp_all
  have "set ?ids = {k. \<exists>c. (c, Some k) \<in> set (align_right tbl (gene_expression_index inp))}"
    unfolding ids by (simp add: set_map_filter_snd)
  also have "\<dots> = {k. \<exists>c \<in> set (gene_expression_index inp). (c, k) \<in> set tbl}"
    unfolding set_align_right by auto
  finally have e: "set ?ids = {k. \<exists>c \<in> set (gene_expression_index inp). (c, k) \<in> set tbl}" .
  from a b d e show ?thesis by blast
qed

theorem cluster_outputs_witness:
  "clusters (run_args argv_fixed (Some ''c.txt'') True) = Some ''c.txt''
   \<and> cluster_tables (run_inputs [(''a'', 10::int), (''b'', 2)]) ''c.txt''
       = Some [(''a'', 10), (''b'', 2)]
   \<and> all_shaped (solved (run_inputs [(''a'', 10::int), (''b'', 2)]))
   \<and> cluster_groups (run_inputs [(''a'', 10::int), (''b'', 2)]) [(''a'', 10), (''b'', 2)]
       = [(2, [''b'']), (10, [''a''])]
   \<and> filter is_cluster_save
         (trace (main plain_library (run_args argv_fixed (Some ''c.txt'') True)
                   (run_inputs [(''a'', 10::int), (''b'', 2)]) Map.empty))
       = [cluster_map_event plain_library (run_args argv_fixed (Some ''c.txt'') True)
            [(2, [''b'']), (10, [''a''])] [2, 10] one_pair,
          summary_event plain_library (run_args argv_fixed (Some ''c.txt'') True)
            [(2, [''b'']), (10, [''a''])] [2, 10] [one_pair]]"
proof -
  let ?tbl = "[(''a'', 10::int), (''b'', 2)]"
  let ?args = "run_args argv_fixed (Some ''c.txt'') True"
  have h1: "clusters ?args = Some ''c.txt''" by (simp add: run_args_def)
  have h2: "cluster_tables (run_inputs ?tbl) ''c.txt'' = Some ?tbl"
    by (simp add: run_inputs_def)
  have h3: "all_shaped (solved (run_inputs ?tbl))"
    by (simp add: run_inputs_def all_shaped_def frame_shaped_def transport_frame_def one_pair_def)
  have h4: "cluster_details ?args" by (simp add: run_args_def)
  have g: "cluster_groups (run_inputs ?tbl) ?tbl = [(2, [''b'']), (10, [''a''])]"
    by (simp add: cluster_groups_def run_inputs_def groupby_cluster_def align_right_def
        List.map_filter_simps)
  have s: "solved (run_inputs ?tbl) = [one_pair]" by (simp add: run_inputs_def)
  from cluster_outputs [OF h1 h2 h3, of plain_library Map.empty]
  have "filter is_cluster_save (trace (main plain_library ?args (run_inputs ?tbl) Map.empty))
      = (if cluster_details ?args
         then map (cluster_map_event plain_library ?args (cluster_groups (run_inputs ?tbl) ?tbl)
                     (map fst (cluster_groups (run_inputs ?tbl) ?tbl))) (solved (run_inputs ?tbl))
         else [])
        @ [summary_event plain_library ?args (cluster_groups (run_inputs ?tbl) ?tbl)
             (map fst (cluster_groups (run_inputs ?tbl) ?tbl)) (solved (run_inputs ?tbl))]"
    by blast
  then have "filter is_cluster_save (trace (main plain_library ?args (run_inputs ?tbl) Map.empty))
      = [cluster_map_event plain_library ?args [(2, [''b'']), (10, [''a''])] [2, 10] one_pair,
         summary_event plain_library ?args [(2, [''b'']), (10, [''a''])] [2, 10] [one_pair]]"
    unfolding g s using h4 by simp
  with h1 h2 h3 g show ?thesis by blast
qed

subsection \<open>Two runs on the same inputs\<close>

lemma so_to_csv:
  "same_outputs f1 f2 s1 s2 \<Longrightarrow> same_outputs f1 f2 (to_csv fr p l g q s1) (to_csv fr p l g q s2)"
  by (auto simp: same_outputs_def agree_off_files_def to_csv_def)

lemma so_print_if:
  "same_outputs f1 f2 s1 s2 \<Longrightarrow> same_outputs f1 f2 (print_if b l s1) (print_if b l s2)"
  by (auto simp: same_outputs_def agree_off_files_def print_if_def)

lemma so_writer_write:
  "same_outputs f1 f2 s1 s2 \<Longrightarrow> same_outputs f1 f2 (writer_write x s1) (writer_write x s2)"
  by (auto simp: same_outputs_def agree_off_files_def writer_write_def split: option.splits)

lemma so_open_w:
  "same_outputs f1 f2 s1 s2 \<Longrightarrow> same_outputs f1 f2 (open_w x s1) (open_w x s2)"
  by (auto simp: same_outputs_def agree_off_files_def open_w_def)

lemma so_raised: "same_outputs f1 f2 s1 s2 \<Longrightarrow> raised s1 = raised s2"
  by (simp add: same_outputs_def agree_off_files_def)

lemma so_acc:
  "same_outputs f1 f2 s1 s2 \<Longrightarrow> all_cell_ids s1 = all_cell_ids s2 \<and> column_cell_ids_by_time s1 = column_cell_ids_by_time s2 \<and> cluster_transport_maps s1 = cluster_transport_maps s2"
  by (simp add: same_outputs_def agree_off_files_def)

lemma so_upd_size:
  "same_outputs f1 f2 s1 s2 \<Longrightarrow> same_outputs f1 f2 (s1\<lparr>total_cluster_size := a\<rparr>) (s2\<lparr>total_cluster_size := a\<rparr>)"
  by (auto simp: same_outputs_def agree_off_files_def)
lemma so_upd_raised:
  "same_outputs f1 f2 s1 s2 \<Longrightarrow> same_outputs f1 f2 (s1\<lparr>raised := a\<rparr>) (s2\<lparr>raised := a\<rparr>)"
  by (auto simp: same_outputs_def agree_off_files_def)

lemma so_grow_cells:
  "same_outputs f1 f2 s1 s2 \<Longrightarrow>
   same_outputs f1 f2 (s1\<lparr>all_cell_ids := (all_cell_ids s1 \<union> A) \<union> B\<rparr>)
                      (s2\<lparr>all_cell_ids := (all_cell_ids s2 \<union> A) \<union> B\<rparr>)"
  by (auto simp: same_outputs_def agree_off_files_def)

lemma so_grow_cols:
  "same_outputs f1 f2 s1 s2 \<Longrightarrow>
   same_outputs f1 f2 (s1\<lparr>column_cell_ids_by_time := column_cell_ids_by_time s1 @ c\<rparr>)
                      (s2\<lparr>column_cell_ids_by_time := column_cell_ids_by_time s2 @ c\<rparr>)"
  by (auto simp: same_outputs_def agree_off_files_def)

lemma so_grow_maps:
  "same_outputs f1 f2 s1 s2 \<Longrightarrow>
   same_outputs f1 f2 (s1\<lparr>cluster_transport_maps := cluster_transport_maps s1 @ c\<rparr>)
                      (s2\<lparr>cluster_transport_maps := cluster_transport_maps s2 @ c\<rparr>)"
  by (auto simp: same_outputs_def agree_off_files_def)

lemma so_log_params:
  "same_outputs f1 f2 s1 s2 \<Longrightarrow>
   same_outputs f1 f2 (log_params L args cb s1) (log_params L args cb s2)"
  by (simp add: log_params_def so_writer_write)

lemma so_summarize:
  assumes "same_outputs f1 f2 s1 s2"
  shows "same_outputs f1 f2 (summarize_by_cluster L args g ids cb tm s1)
                            (summarize_by_cluster L args g ids cb tm s2)"
proof (cases "clusters args")
  case None
  then show ?thesis using assms by (simp add: summarize_by_cluster_def)
next
  case (Some path)
  show ?thesis
    unfolding summarize_by_cluster_def Let_def Some option.case
    by (cases "cluster_details args")
       (simp_all only: if_True if_False,
        (intro so_grow_maps so_to_csv so_print_if so_grow_cols so_grow_cells assms)+)
qed

lemma so_save_map:
  "same_outputs f1 f2 s1 s2 \<Longrightarrow>
   same_outputs f1 f2 (save_transport_map L args cb tm s1) (save_transport_map L args cb tm s2)"
  by (simp add: save_transport_map_def so_to_csv so_print_if)

lemma so_callback:
  assumes "same_outputs f1 f2 s1 s2"
  shows "same_outputs f1 f2 (callback L args g ids cb s1) (callback L args g ids cb s2)"
proof -
  have w: "same_outputs f1 f2 (log_params L args cb s1) (log_params L args cb s2)"
    using assms by (rule so_log_params)
  have r: "raised (log_params L args cb s1) = raised (log_params L args cb s2)"
    using w by (rule so_raised)
  show ?thesis
  proof (cases "make_transport_map cb")
    case (Inl e)
    then show ?thesis
      unfolding callback_def Let_def using w r by (simp add: so_upd_raised)
  next
    case (Inr tm)
    then show ?thesis
      unfolding callback_def Let_def using w r by (simp add: so_save_map so_summarize)
  qed
qed

lemma so_compute:
  "same_outputs f1 f2 s1 s2 \<Longrightarrow>
   same_outputs f1 f2 (compute_transport_maps (callback L args g ids) cbs s1)
                      (compute_transport_maps (callback L args g ids) cbs s2)"
proof (induction cbs arbitrary: s1 s2)
  case Nil
  then show ?case by simp
next
  case (Cons cb cbs)
  from so_callback [OF Cons.prems]
  have c: "same_outputs f1 f2 (callback L args g ids cb s1) (callback L args g ids cb s2)" .
  from so_raised [OF c] c Cons.IH [OF c] show ?case by (simp add: Let_def)
qed

lemma so_save_summary:
  assumes "same_outputs f1 f2 s1 s2"
  shows "same_outputs f1 f2 (save_summary L args g ids s1) (save_summary L args g ids s2)"
proof -
  have p: "same_outputs f1 f2 (print_if b l s1) (print_if b l s2)" for b l
    using assms by (rule so_print_if)
  have a: "all_cell_ids (print_if b l s1) = all_cell_ids (print_if b l s2)"
    "column_cell_ids_by_time (print_if b l s1) = column_cell_ids_by_time (print_if b l s2)"
    "cluster_transport_maps (print_if b l s1) = cluster_transport_maps (print_if b l s2)" for b l
    using so_acc [OF p] by simp_all
  show ?thesis
    unfolding save_summary_def Let_def
    using assms so_raised [OF assms]
    by (simp add: a so_to_csv p split: option.splits)
qed

lemma so_initial: "same_outputs f1 f2 (initial_state f1) (initial_state f2)"
  by (simp add: same_outputs_def agree_off_files_def initial_state_def)

lemma so_open_params:
  "same_outputs f1 f2 s1 s2 \<Longrightarrow> same_outputs f1 f2 (open_params args s1) (open_params args s2)"
  by (simp add: open_params_def so_writer_write so_open_w)

lemma so_main: "same_outputs f1 f2 (main L args inp f1) (main L args inp f2)"
  unfolding main_def Let_def
  by (auto split: option.splits intro!: so_save_summary so_compute so_upd_size so_upd_raised so_open_params so_initial)

lemma state_eqI:
  "agree_off_files s1 s2 \<Longrightarrow> files s1 = files s2 \<Longrightarrow> s1 = s2"
  by (cases s1, cases s2) (simp add: agree_off_files_def)

text \<open>
  C7.  Two runs on the same options, inputs and solver results, started on any two file
  systems, end in states that agree on the accumulators, the printed lines and the
  error, and on every file either run wrote; and a second run started on the file
  system the first one left ends in the very state of the first: nothing of one run
  reaches the next.
\<close>

theorem main_rerun:
  "same_outputs fs1 fs2 (main L args inp fs1) (main L args inp fs2)
   \<and> main L args inp (files (main L args inp fs)) = main L args inp fs"
proof
  show "same_outputs fs1 fs2 (main L args inp fs1) (main L args inp fs2)" by (rule so_main)
  have so: "same_outputs (files (main L args inp fs)) fs (main L args inp (files (main L args inp fs))) (main L args inp fs)"
    by (rule so_main)
  then have "files (main L args inp (files (main L args inp fs))) p = files (main L args inp fs) p" for p
    unfolding same_outputs_def by metis
  then have "files (main L args inp (files (main L args inp fs))) = files (main L args inp fs)" by (rule ext)
  with so show "main L args inp (files (main L args inp fs)) = main L args inp fs"
    unfolding same_outputs_def by (intro state_eqI) auto
qed


theorem main_rerun_witness:
  "main plain_library (run_args argv_fixed (Some ''c.txt'') True) (run_inputs [(''a'', ''k'')])
     (files (main plain_library (run_args argv_fixed (Some ''c.txt'') True)
               (run_inputs [(''a'', ''k'')]) Map.empty))
   = main plain_library (run_args argv_fixed (Some ''c.txt'') True) (run_inputs [(''a'', ''k'')])
       Map.empty"
  using main_rerun [of Map.empty Map.empty plain_library
      "run_args argv_fixed (Some ''c.txt'') True" "run_inputs [(''a'', ''k'')]" Map.empty]
  by blast

section \<open>Properties of the summary by cluster\<close>

lemma sum_list_swap_real:
  fixes f :: "'a \<Rightarrow> 'b \<Rightarrow> real"
  shows "sum_list (map (\<lambda>x. sum_list (map (f x) ys)) xs)
       = sum_list (map (\<lambda>y. sum_list (map (\<lambda>x. f x y) xs)) ys)"
  by (induction xs) (simp_all add: sum_list_addf)

lemma one_hot_sum:
  fixes v :: real
  assumes "length (filter P ids) = 1"
  shows "sum_list (map (\<lambda>c. if P c then v else 0) ids) = v"
  using assms
proof (induction ids)
  case Nil
  then show ?case by simp
next
  case (Cons c ids)
  show ?case
  proof (cases "P c")
    case True
    with Cons.prems have "filter P ids = []" by simp
    then have "\<forall>x \<in> set ids. \<not> P x" by (simp add: filter_empty_conv)
    then have "sum_list (map (\<lambda>c. if P c then v else 0) ids) = 0"
      by (induction ids) auto
    with True show ?thesis by simp
  next
    case False
    with Cons show ?thesis by simp
  qed
qed

lemma bucket_row_total:
  assumes "length row = length cols"
    and "\<forall>x \<in> set cols. in_one_cluster g ids x"
  shows "sum_list (map (\<lambda>c2. bucket_row (members g c2) cols row) ids) = sum_list row"
proof -
  have "sum_list (map (\<lambda>c2. bucket_row (members g c2) cols row) ids)
      = sum_list (map (\<lambda>cv. sum_list (map (\<lambda>c2. if fst cv \<in> set (members g c2) then snd cv else 0) ids))
           (zip cols row))"
    unfolding bucket_row_def by (rule sum_list_swap_real)
  also have "\<dots> = sum_list (map snd (zip cols row))"
  proof (rule arg_cong [where f = sum_list], rule map_cong [OF refl])
    fix cv assume "cv \<in> set (zip cols row)"
    then have "(fst cv, snd cv) \<in> set (zip cols row)" by simp
    then have "fst cv \<in> set cols" by (rule set_zip_leftD)
    with assms(2) have "length (filter (\<lambda>c. fst cv \<in> set (members g c)) ids) = 1"
      by (simp add: in_one_cluster_def)
    then show "sum_list (map (\<lambda>c2. if fst cv \<in> set (members g c2) then snd cv else 0) ids) = snd cv"
      by (rule one_hot_sum)
  qed
  also have "\<dots> = sum_list row" using assms(1) by simp
  finally show ?thesis .
qed

lemma bucket_mass_columns:
  assumes "list_all (\<lambda>row. length row = length (df_columns tm)) (df_data tm)"
    and "\<forall>x \<in> set (df_columns tm). in_one_cluster g ids x"
  shows "sum_list (map (\<lambda>c2. bucket_mass tm src (members g c2)) ids)
       = sum_list (map (\<lambda>rr. if fst rr \<in> set src then sum_list (snd rr) else 0)
                    (zip (df_index tm) (df_data tm)))"
proof -
  have "sum_list (map (\<lambda>c2. bucket_mass tm src (members g c2)) ids)
      = sum_list (map (\<lambda>rr. sum_list (map (\<lambda>c2. if fst rr \<in> set src
            then bucket_row (members g c2) (df_columns tm) (snd rr) else 0) ids))
           (zip (df_index tm) (df_data tm)))"
    unfolding bucket_mass_def by (rule sum_list_swap_real)
  also have "\<dots> = sum_list (map (\<lambda>rr. if fst rr \<in> set src then sum_list (snd rr) else 0)
                    (zip (df_index tm) (df_data tm)))"
  proof (rule arg_cong [where f = sum_list], rule map_cong [OF refl])
    fix rr assume "rr \<in> set (zip (df_index tm) (df_data tm))"
    then have "(fst rr, snd rr) \<in> set (zip (df_index tm) (df_data tm))" by simp
    then have "snd rr \<in> set (df_data tm)" by (rule set_zip_rightD)
    with assms(1) have len: "length (snd rr) = length (df_columns tm)"
      by (simp add: list_all_iff)
    show "sum_list (map (\<lambda>c2. if fst rr \<in> set src
            then bucket_row (members g c2) (df_columns tm) (snd rr) else 0) ids)
        = (if fst rr \<in> set src then sum_list (snd rr) else 0)"
      using bucket_row_total [OF len assms(2)] by simp
  qed
  finally show ?thesis .
qed

text \<open>
  C6, as claimed: for every transport map and every grouping, the entries of the cluster
  map sum to the entries of the transport map.  In \<open>unit_map\<close> one unit of mass goes
  from cell \<open>a\<close> to cell \<open>b\<close>; with the one cluster \<open>k\<close> holding only \<open>a\<close>, the cell
  \<open>b\<close> has no cluster and the cluster map is zero.
\<close>

theorem unassigned_cell_loses_mass:
  "frame_sum unit_map = 1
   \<and> frame_sum (transport_map_by_cluster unit_map [(''k'', [''a''])] [''k'']) = 0"
  by (simp add: frame_sum_def unit_map_def transport_map_by_cluster_def bucket_mass_def
      bucket_row_def members_def)

text \<open>
  C6, amended.  When the transport map has one matrix row per row label and one entry
  per column label in each row, and every row cell and every column cell is a member of
  exactly one cluster of the list of cluster ids, the entries of the cluster map sum to
  the entries of the transport map.
\<close>

theorem summarization_conserves_mass:
  assumes "frame_shaped tm"
    and "\<forall>x \<in> set (df_index tm) \<union> set (df_columns tm). in_one_cluster g ids x"
  shows "frame_sum (transport_map_by_cluster tm g ids) = frame_sum tm"
proof -
  from assms(1) have shape: "length (df_data tm) = length (df_index tm)"
    "list_all (\<lambda>row. length row = length (df_columns tm)) (df_data tm)"
    by (simp_all add: frame_shaped_def)
  from assms(2) have cols: "\<forall>x \<in> set (df_columns tm). in_one_cluster g ids x"
    and rows: "\<forall>x \<in> set (df_index tm). in_one_cluster g ids x" by auto
  have "frame_sum (transport_map_by_cluster tm g ids)
      = sum_list (map (\<lambda>c1. sum_list (map (\<lambda>c2. bucket_mass tm (members g c1) (members g c2)) ids)) ids)"
    by (simp add: frame_sum_def transport_map_by_cluster_def comp_def)
  also have "\<dots> = sum_list (map (\<lambda>c1. sum_list (map (\<lambda>rr. if fst rr \<in> set (members g c1)
                        then sum_list (snd rr) else 0) (zip (df_index tm) (df_data tm)))) ids)"
    by (simp only: bucket_mass_columns [OF shape(2) cols])
  also have "\<dots> = sum_list (map (\<lambda>rr. sum_list (map (\<lambda>c1. if fst rr \<in> set (members g c1)
                        then sum_list (snd rr) else 0) ids)) (zip (df_index tm) (df_data tm)))"
    by (rule sum_list_swap_real)
  also have "\<dots> = sum_list (map (\<lambda>rr. sum_list (snd rr)) (zip (df_index tm) (df_data tm)))"
  proof (rule arg_cong [where f = sum_list], rule map_cong [OF refl])
    fix rr assume "rr \<in> set (zip (df_index tm) (df_data tm))"
    then have "(fst rr, snd rr) \<in> set (zip (df_index tm) (df_data tm))" by simp
    then have "fst rr \<in> set (df_index tm)" by (rule set_zip_leftD)
    with rows have "length (filter (\<lambda>c. fst rr \<in> set (members g c)) ids) = 1"
      by (simp add: in_one_cluster_def)
    then show "sum_list (map (\<lambda>c1. if fst rr \<in> set (members g c1) then sum_list (snd rr) else 0) ids)
        = sum_list (snd rr)"
      by (rule one_hot_sum)
  qed
  also have "\<dots> = sum_list (map sum_list (map snd (zip (df_index tm) (df_data tm))))"
    by (simp add: comp_def)
  also have "\<dots> = frame_sum tm" using shape(1) by (simp add: frame_sum_def)
  finally show ?thesis .
qed


theorem summarization_conserves_mass_witness:
  "frame_shaped unit_map \<and> in_one_cluster [(''k'', [''a'', ''b''])] [''k''] ''a''
   \<and> in_one_cluster [(''k'', [''a'', ''b''])] [''k''] ''b''
   \<and> frame_sum (transport_map_by_cluster unit_map [(''k'', [''a'', ''b''])] [''k''])
       = frame_sum unit_map"
proof -
  have h1: "frame_shaped unit_map" by (simp add: frame_shaped_def unit_map_def)
  have a: "in_one_cluster [(''k'', [''a'', ''b''])] [''k''] ''a''"
    and b: "in_one_cluster [(''k'', [''a'', ''b''])] [''k''] ''b''"
    by (simp_all add: in_one_cluster_def members_def)
  have h2: "\<forall>x \<in> set (df_index unit_map) \<union> set (df_columns unit_map).
              in_one_cluster [(''k'', [''a'', ''b''])] [''k''] x"
    using a b by (simp add: unit_map_def)
  from summarization_conserves_mass [OF h1 h2] h1 a b show ?thesis by blast
qed

end
